theory Spec2Isabelle
  imports Main "HOL-Library.Sublist" "HOL-Library.AList"
begin

section \<open>QDM: segmented download engine, queue scheduler and browser monitor\<close>

text \<open>
  A shallow embedding of the download engine (\<^verbatim>\<open>electron/download-engine.ts\<close>), the queue
  scheduler (\<^verbatim>\<open>electron/queue-manager.ts\<close>) and the browser monitor
  (\<^verbatim>\<open>electron/browser-monitor.ts\<close>).

  JavaScript numbers that hold byte counts, indices and clock fields are modelled as
  \<^typ>\<open>int\<close>: every operation the code applies to them (\<^verbatim>\<open>+\<close>, \<^verbatim>\<open>-\<close>, \<^verbatim>\<open>*\<close>,
  \<^verbatim>\<open>Math.floor(a / b)\<close>, \<^verbatim>\<open>Math.min\<close>, \<^verbatim>\<open>Math.max\<close>, comparisons) is exact on integers
  below \<open>2^53\<close>. \<^verbatim>\<open>NaN\<close> is modelled as \<^term>\<open>None\<close> where \<^verbatim>\<open>Number\<close> can produce it; the
  results of \<^verbatim>\<open>parseInt\<close> have a type of their own, with the rounding of a double.
  Strings are byte strings.
\<close>

subsection \<open>Data model (\<^verbatim>\<open>types.ts\<close>)\<close>

text \<open>\<^verbatim>\<open>SegmentState\<close>: NotStarted = 0, Downloading = 1, Finished = 2, Failed = 3.\<close>

datatype SegmentState = NotStarted | Downloading | Finished | Failed

datatype DownloadStatus =
  queued | downloading | paused | completed | failed | assembling | stopped

datatype DownloadCategory =
  cat_all | compressed | documents | music | videos | programs | other

record DownloadSegment =
  s_id :: string
  s_offset :: int
  s_length :: int
  s_downloaded :: int
  s_state :: SegmentState
  s_speed :: int

record DownloadItem =
  item_id :: string
  url :: string
  fileName :: string
  fileSize :: int
  downloaded :: int
  progress :: int
  speed :: int
  eta :: int
  status :: DownloadStatus
  category :: DownloadCategory
  dateAdded :: string
  dateCompleted :: "string option"
  savePath :: string
  resumable :: bool
  segments :: "DownloadSegment list"
  maxSegments :: int
  error :: "string option"
  headers :: "(string \<times> string) list option"
  userAgent :: "string option"
  referer :: "string option"

subsection \<open>Segmenter: \<^verbatim>\<open>initializeSegments\<close>\<close>

text \<open>
  \<^verbatim>\<open>generateId()\<close> reads the clock and the random generator; the model takes the identifiers
  as a supply \<open>gen\<close>, where \<open>gen k\<close> is the identifier produced by the \<open>k\<close>-th call.
\<close>

definition new_segment :: "string \<Rightarrow> int \<Rightarrow> int \<Rightarrow> DownloadSegment" where
  "new_segment sid off len =
     \<lparr>s_id = sid, s_offset = off, s_length = len, s_downloaded = 0,
      s_state = NotStarted, s_speed = 0\<rparr>"

text \<open>The loop \<^verbatim>\<open>for (let i = 0; i < segmentCount; i++)\<close>, with the list built so far.\<close>

function segment_loop ::
  "(nat \<Rightarrow> string) \<Rightarrow> int \<Rightarrow> int \<Rightarrow> int \<Rightarrow> int \<Rightarrow> DownloadSegment list \<Rightarrow> DownloadSegment list"
where
  "segment_loop gen fsize segmentCount segmentSize i segs =
     (if i < segmentCount then
        (let off = i * segmentSize;
             len = (if i = segmentCount - 1 then fsize - off else segmentSize)
         in segment_loop gen fsize segmentCount segmentSize (i + 1)
              (segs @ [new_segment (gen (nat i)) off len]))
      else segs)"
  by pat_completeness auto
termination
  by (relation "measure (\<lambda>(gen, fsize, segmentCount, segmentSize, i, segs). nat (segmentCount - i))")
     auto

declare segment_loop.simps [simp del]

definition segmentCount_of :: "DownloadItem \<Rightarrow> int" where
  "segmentCount_of item = min (maxSegments item) (max 1 (fileSize item div (256 * 1024)))"

definition initializeSegments :: "(nat \<Rightarrow> string) \<Rightarrow> DownloadItem \<Rightarrow> DownloadSegment list" where
  "initializeSegments gen item =
     (if fileSize item \<le> 0 \<or> \<not> resumable item then
        [new_segment (gen 0) 0 (if fileSize item > 0 then fileSize item else - 1)]
      else
        (let segmentCount = segmentCount_of item;
             segmentSize = fileSize item div segmentCount
         in segment_loop gen (fileSize item) segmentCount segmentSize 0 []))"


subsection \<open>Segment worker: the response handlers of \<^verbatim>\<open>downloadSegment\<close>\<close>

text \<open>
  What a segment worker can observe on its request, in the order the handlers of
  \<^verbatim>\<open>downloadSegment\<close> test it: a 3xx response with a \<^verbatim>\<open>Location\<close> (already resolved against
  the download's URL), a response with status \<open>\<ge> 400\<close>, any other response head, a body
  chunk of \<open>n\<close> bytes (with the state of the abort signal when it arrives), the clean end
  of the body, a response stream error, a request error and the request timeout.
\<close>

datatype worker_event =
    Redirect string
  | HttpError int
  | ResponseHead
  | Chunk bool int
  | End
  | ResError
  | ReqError
  | Timeout

text \<open>
  The effect of one event on the worker's own segment. A rejected promise is caught in
  \<^verbatim>\<open>startDownload\<close>, whose handler sets the state to 3 (Failed): that is the
  \<^term>\<open>HttpError\<close> case.
\<close>

fun segment_on :: "worker_event \<Rightarrow> DownloadSegment \<Rightarrow> DownloadSegment" where
  "segment_on (Redirect u) seg = seg"
| "segment_on (HttpError code) seg = seg\<lparr>s_state := Failed\<rparr>"
| "segment_on ResponseHead seg = seg\<lparr>s_state := Downloading\<rparr>"
| "segment_on (Chunk aborted n) seg =
     (if aborted then seg
      else seg\<lparr>s_downloaded := s_downloaded seg + n, s_speed := n\<rparr>)"
| "segment_on End seg = seg\<lparr>s_state := Finished\<rparr>"
| "segment_on ResError seg = seg\<lparr>s_state := Failed\<rparr>"
| "segment_on ReqError seg = seg\<lparr>s_state := Failed\<rparr>"
| "segment_on Timeout seg = seg\<lparr>s_state := Failed\<rparr>"

text \<open>
  The effect on the download item: the worker of the segment at index \<open>k\<close> of
  \<^verbatim>\<open>item.segments\<close> mutates that segment in place, adds each chunk to \<^verbatim>\<open>item.downloaded\<close>
  and rewrites \<^verbatim>\<open>item.url\<close> on a redirect.
\<close>

definition worker_step :: "nat \<Rightarrow> worker_event \<Rightarrow> DownloadItem \<Rightarrow> DownloadItem" where
  "worker_step k ev item =
     (if k < length (segments item) then
        item\<lparr>segments := (segments item)[k := segment_on ev (segments item ! k)],
             downloaded := (case ev of
                              Chunk aborted n \<Rightarrow>
                                (if aborted then downloaded item else downloaded item + n)
                            | _ \<Rightarrow> downloaded item),
             url := (case ev of Redirect u \<Rightarrow> u | _ \<Rightarrow> url item)\<rparr>
      else item)"

definition worker_run :: "nat \<Rightarrow> worker_event list \<Rightarrow> DownloadItem \<Rightarrow> DownloadItem" where
  "worker_run k evs item = foldl (\<lambda>it ev. worker_step k ev it) item evs"

text \<open>
  The request headers of a worker: the product \<^verbatim>\<open>User-Agent\<close>, then the item's own headers
  spread over it, then \<^verbatim>\<open>Range\<close> when the item is resumable and the segment has a positive
  length. A JavaScript object keeps one value per key, in insertion order; assigning an
  existing key replaces its value in place, which is \<^const>\<open>AList.update\<close>.
\<close>

definition spread :: "(string \<times> string) list \<Rightarrow> (string \<times> string) list \<Rightarrow> (string \<times> string) list" where
  "spread obj src = foldl (\<lambda>acc (k, v). AList.update k v acc) obj src"

text \<open>Decimal rendering of a number in a template string.\<close>

fun digits_of :: "nat \<Rightarrow> string" where
  "digits_of n =
     (if n < 10 then [char_of (48 + n)]
      else digits_of (n div 10) @ [char_of (48 + n mod 10)])"

declare digits_of.simps [simp del]

definition show_int :: "int \<Rightarrow> string" where
  "show_int i = (if i < 0 then CHR ''-'' # digits_of (nat (- i)) else digits_of (nat i))"




subsection \<open>Download supervisor: \<^verbatim>\<open>startDownload\<close>, \<^verbatim>\<open>retryDownload\<close>\<close>

text \<open>
  The engine's state: the \<^verbatim>\<open>downloads\<close> map, the \<^verbatim>\<open>activeDownloads\<close> map and the events
  emitted so far. An \<^verbatim>\<open>ActiveDownload\<close> refers to its item by identity (the key); its
  \<^verbatim>\<open>abortControllers\<close> map has one entry per spawned worker, keyed by segment id; the
  model keeps its set of keys.
\<close>

record ActiveDownload =
  abortControllers :: "string set"
  ad_startTime :: int
  bytesAtStart :: int
  lastSpeedCalcTime :: int
  lastSpeedCalcBytes :: int

datatype engine_event =
    DownloadStarted DownloadItem

record engine =
  downloads :: "string \<rightharpoonup> DownloadItem"
  activeDownloads :: "string \<rightharpoonup> ActiveDownload"
  emitted :: "engine_event list"

text \<open>
  \<^verbatim>\<open>startDownload\<close> up to its first suspension (\<^verbatim>\<open>await Promise.all\<close>): everything the call
  does before control returns to the event loop. \<open>now\<close> is \<^verbatim>\<open>Date.now()\<close>. The promise
  executor of each \<^verbatim>\<open>downloadSegment\<close> runs synchronously and registers the worker's abort
  controller; segments change only later, through \<^const>\<open>worker_step\<close>.
\<close>

definition startDownload ::
  "(nat \<Rightarrow> string) \<Rightarrow> int \<Rightarrow> string \<Rightarrow> engine \<Rightarrow> DownloadItem option \<times> engine"
where
  "startDownload gen now ident e =
     (case downloads e ident of
        None \<Rightarrow> (None, e)
      | Some item \<Rightarrow>
          if status item = downloading then (Some item, e)
          else
            (let item1 = (if length (segments item) = 0
                          then item\<lparr>segments := initializeSegments gen item\<rparr> else item);
                 item2 = item1\<lparr>status := downloading, error := None\<rparr>;
                 pendingSegments = filter (\<lambda>s. s_state s \<noteq> Finished) (segments item2);
                 active = \<lparr>abortControllers = set (map s_id pendingSegments),
                           ad_startTime = now,
                           bytesAtStart = downloaded item2,
                           lastSpeedCalcTime = now,
                           lastSpeedCalcBytes = downloaded item2\<rparr>
             in (Some item2,
                 e\<lparr>downloads := (downloads e)(ident \<mapsto> item2),
                   activeDownloads := (activeDownloads e)(ident \<mapsto> active),
                   emitted := emitted e @ [DownloadStarted item2]\<rparr>)))"

text \<open>
  \<^verbatim>\<open>retryDownload\<close>: the reset loop, the recomputation of \<^verbatim>\<open>downloaded\<close> with
  \<^verbatim>\<open>reduce\<close>, then \<^verbatim>\<open>startDownload\<close>.
\<close>

definition retry_segment :: "DownloadSegment \<Rightarrow> DownloadSegment" where
  "retry_segment segment =
     (if s_state segment \<noteq> Finished
      then segment\<lparr>s_state := NotStarted, s_downloaded := 0\<rparr> else segment)"

definition retryDownload ::
  "(nat \<Rightarrow> string) \<Rightarrow> int \<Rightarrow> string \<Rightarrow> engine \<Rightarrow> DownloadItem option \<times> engine"
where
  "retryDownload gen now ident e =
     (case downloads e ident of
        None \<Rightarrow> (None, e)
      | Some item \<Rightarrow>
          (let segs = map retry_segment (segments item);
               item' = item\<lparr>segments := segs,
                            downloaded := foldl (\<lambda>sum s. sum + s_downloaded s) 0 segs,
                            error := None\<rparr>
           in startDownload gen now ident (e\<lparr>downloads := (downloads e)(ident \<mapsto> item')\<rparr>)))"

text \<open>A download of one megabyte with four segments allowed, as a running example.\<close>

definition example_item :: DownloadItem where
  "example_item =
     \<lparr>item_id = ''d1'', url = ''http://host/f.zip'', fileName = ''f.zip'',
      fileSize = 1000000, downloaded = 0, progress = 0, speed = 0, eta = 0,
      status = queued, category = compressed, dateAdded = ''2024-01-01T00:00:00.000Z'',
      dateCompleted = None, savePath = ''/tmp'', resumable = True, segments = [],
      maxSegments = 4, error = None, headers = None, userAgent = None, referer = None\<rparr>"

definition example_gen :: "nat \<Rightarrow> string" where
  "example_gen k = CHR ''s'' # digits_of k"

subsection \<open>Strings\<close>

text \<open>
  \<^verbatim>\<open>String.prototype.includes\<close>, \<^verbatim>\<open>startsWith\<close>, \<^verbatim>\<open>toLowerCase\<close> (on ASCII letters; the other
  bytes are kept) and \<^verbatim>\<open>split\<close> on a one-character separator.
\<close>

fun str_includes :: "string \<Rightarrow> string \<Rightarrow> bool" where
  "str_includes [] sub = (sub = [])"
| "str_includes (c # cs) sub = (prefix sub (c # cs) \<or> str_includes cs sub)"

definition startsWith :: "string \<Rightarrow> string \<Rightarrow> bool" where
  "startsWith s p = prefix p s"

definition lower_char :: "char \<Rightarrow> char" where
  "lower_char c =
     (let n = (of_char c :: nat) in if 65 \<le> n \<and> n \<le> 90 then char_of (n + 32) else c)"

definition toLowerCase :: "string \<Rightarrow> string" where
  "toLowerCase s = map lower_char s"

fun split_on :: "char \<Rightarrow> string \<Rightarrow> string list" where
  "split_on d [] = [[]]"
| "split_on d (c # cs) =
     (if c = d then [] # split_on d cs
      else (case split_on d cs of p # ps \<Rightarrow> (c # p) # ps | [] \<Rightarrow> [[c]]))"

definition is_digit :: "char \<Rightarrow> bool" where
  "is_digit c = (48 \<le> (of_char c :: nat) \<and> (of_char c :: nat) \<le> 57)"

definition digits_val :: "string \<Rightarrow> int" where
  "digits_val ds = foldl (\<lambda>acc c. acc * 10 + (int (of_char c) - 48)) 0 ds"

text \<open>The white space that \<^verbatim>\<open>parseInt\<close>, \<^verbatim>\<open>Number\<close> and \<^verbatim>\<open>trim\<close> skip, among the ASCII bytes.\<close>

definition js_whitespace :: "char \<Rightarrow> bool" where
  "js_whitespace c = ((of_char c :: nat) \<in> {9, 10, 11, 12, 13, 32})"

definition trim :: "string \<Rightarrow> string" where
  "trim s = rev (dropWhile js_whitespace (rev (dropWhile js_whitespace s)))"









text \<open>
  \<^verbatim>\<open>Number(s)\<close> on the strings a time of day is written with: white space is trimmed, the
  empty string is 0, an optionally signed run of decimal digits is its value. Every other
  string is taken as \<^verbatim>\<open>NaN\<close>; the literals of JavaScript with a fraction, an exponent or
  a radix prefix are outside this model.
\<close>

definition Number_dec :: "string \<Rightarrow> int option" where
  "Number_dec s =
     (let t = trim s;
          neg = (t \<noteq> [] \<and> hd t = CHR ''-'');
          ds = (if t \<noteq> [] \<and> (hd t = CHR ''-'' \<or> hd t = CHR ''+'') then tl t else t)
      in if t = [] then Some 0
         else if ds \<noteq> [] \<and> list_all is_digit ds
         then Some (if neg then - digits_val ds else digits_val ds)
         else None)"

subsection \<open>Probe: the response handler of \<^verbatim>\<open>probeUrl\<close>\<close>

text \<open>
  The response headers are Node's \<^verbatim>\<open>res.headers\<close>: a map from lower-case header names to
  values. \<open>a || b\<close> on strings takes \<open>b\<close> when \<open>a\<close> is undefined or empty.
\<close>

definition or_else :: "string option \<Rightarrow> string \<Rightarrow> string" where
  "or_else a b = (case a of None \<Rightarrow> b | Some v \<Rightarrow> if v = [] then b else v)"











subsection \<open>Queue scheduler: \<^verbatim>\<open>isWithinSchedule\<close>, \<^verbatim>\<open>getNextDownloadIds\<close>\<close>

record QueueSchedule =
  sch_enabled :: bool
  startTime :: string
  endTime :: string
  days :: "int list"

record DownloadQueue =
  q_id :: string
  q_name :: string
  downloadIds :: "string list"
  maxConcurrent :: int
  q_enabled :: bool
  schedule :: "QueueSchedule option"

text \<open>The local wall clock: \<^verbatim>\<open>now.getDay()\<close>, \<^verbatim>\<open>now.getHours()\<close>, \<^verbatim>\<open>now.getMinutes()\<close>.\<close>

record wall_clock =
  getDay :: int
  getHours :: int
  getMinutes :: int

text \<open>
  \<^verbatim>\<open>const [h, m] = t.split(':').map(Number)\<close> followed by \<^verbatim>\<open>h * 60 + m\<close>; a missing part is
  undefined and the sum is \<^verbatim>\<open>NaN\<close>.
\<close>

definition minutes_of :: "string \<Rightarrow> int option" where
  "minutes_of t =
     (case map Number_dec (split_on CHR '':'' t) of
        Some h # Some m # rest \<Rightarrow> Some (h * 60 + m)
      | _ \<Rightarrow> None)"

text \<open>Comparisons with \<^verbatim>\<open>NaN\<close> are false.\<close>

definition js_le :: "int option \<Rightarrow> int option \<Rightarrow> bool" where
  "js_le a b = (case (a, b) of (Some x, Some y) \<Rightarrow> x \<le> y | _ \<Rightarrow> False)"

definition isWithinSchedule :: "QueueSchedule \<Rightarrow> wall_clock \<Rightarrow> bool" where
  "isWithinSchedule sch now =
     (if getDay now \<notin> set (days sch) then False
      else
        (let currentMinutes = Some (getHours now * 60 + getMinutes now);
             startMinutes = minutes_of (startTime sch);
             endMinutes = minutes_of (endTime sch)
         in if js_le startMinutes endMinutes
            then js_le startMinutes currentMinutes \<and> js_le currentMinutes endMinutes
            else js_le startMinutes currentMinutes \<or> js_le currentMinutes endMinutes))"

definition getNextDownloadIds ::
  "(string \<rightharpoonup> DownloadQueue) \<Rightarrow> wall_clock \<Rightarrow> string \<Rightarrow> int \<Rightarrow> string list"
where
  "getNextDownloadIds queues now queueId currentActiveCount =
     (case queues queueId of
        None \<Rightarrow> []
      | Some queue \<Rightarrow>
          if \<not> q_enabled queue then []
          else
            (let slotsAvailable = max 0 (maxConcurrent queue - currentActiveCount)
             in if slotsAvailable = 0 then []
                else if (case schedule queue of
                           None \<Rightarrow> False
                         | Some sch \<Rightarrow> sch_enabled sch \<and> \<not> isWithinSchedule sch now)
                then []
                else take (nat slotsAvailable) (downloadIds queue)))"

text \<open>A time of day written \<^verbatim>\<open>HH:mm\<close>.\<close>

definition two_digits :: "nat \<Rightarrow> string" where
  "two_digits n = [char_of (48 + n div 10), char_of (48 + n mod 10)]"

definition hhmm :: "nat \<Rightarrow> nat \<Rightarrow> string" where
  "hhmm h m = two_digits h @ CHR '':'' # two_digits m"

subsection \<open>The platform's \<^verbatim>\<open>URL\<close> class\<close>

text \<open>
  The browser monitor parses URLs with the platform's \<^verbatim>\<open>URL\<close> class and edits their query
  through \<^verbatim>\<open>searchParams\<close>. The class is not part of the repository. Its constructor is a
  parameter of the model, the field \<open>new_URL\<close> of the platform record below: for a string
  the constructor accepts it gives the parts of the URL as the constructor has parsed and
  normalised them, and \<^term>\<open>None\<close> for a string it rejects (\<^verbatim>\<open>new URL\<close> throws). The parts are
  \<^item> \<open>u_base\<close>: the serialised URL up to the end of its path (scheme, user information,
    host, port and path);
  \<^item> \<open>u_hostname\<close> and \<open>pathname\<close>: the properties of these names;
  \<^item> \<open>u_query\<close>: the query, without its \<^verbatim>\<open>?\<close>, if there is one;
  \<^item> \<open>searchParams\<close>: the list of name-value pairs of the query, decoded;
  \<^item> \<open>u_hash\<close>: the fragment, without its \<^verbatim>\<open>#\<close>, if there is one.

  Strings stand for their UTF-8 bytes. The two methods the monitor calls on a parsed URL are
  those of the URL Standard:
  \<^item> \<^verbatim>\<open>searchParams.delete\<close> removes every pair of that name and rewrites the query from the
    list, in the \<^verbatim>\<open>application/x-www-form-urlencoded\<close> format; an empty list leaves no query;
  \<^item> \<^verbatim>\<open>toString\<close> writes the base, the query after \<^verbatim>\<open>?\<close> and the fragment after \<^verbatim>\<open>#\<close>.

  This is the Standard for a URL with a host. Of a URL without host whose path is opaque the
  Standard also trims the path when the query is removed; such URLs are outside the model.
\<close>

record URL =
  u_base :: string
  u_hostname :: string
  pathname :: string
  u_query :: "string option"
  searchParams :: "(string \<times> string) list"
  u_hash :: "string option"

definition hex_digit :: "nat \<Rightarrow> char" where
  "hex_digit n = (if n < 10 then char_of (48 + n) else char_of (55 + n))"

definition form_safe :: "char \<Rightarrow> bool" where
  "form_safe c =
     (let n = (of_char c :: nat)
      in (48 \<le> n \<and> n \<le> 57) \<or> (65 \<le> n \<and> n \<le> 90) \<or> (97 \<le> n \<and> n \<le> 122) \<or>
         n = 42 \<or> n = 45 \<or> n = 46 \<or> n = 95)"

definition form_encode_byte :: "char \<Rightarrow> string" where
  "form_encode_byte c =
     (if c = CHR '' '' then ''+''
      else if form_safe c then [c]
      else [CHR ''%'', hex_digit (of_char c div 16), hex_digit (of_char c mod 16)])"

definition form_encode :: "string \<Rightarrow> string" where
  "form_encode s = concat (map form_encode_byte s)"

fun join_amp :: "string list \<Rightarrow> string" where
  "join_amp [] = []"
| "join_amp [x] = x"
| "join_amp (x # y # ys) = x @ CHR ''&'' # join_amp (y # ys)"

definition urlencoded_serialize :: "(string \<times> string) list \<Rightarrow> string" where
  "urlencoded_serialize ps =
     join_amp (map (\<lambda>(n, v). form_encode n @ CHR ''='' # form_encode v) ps)"

definition url_toString :: "URL \<Rightarrow> string" where
  "url_toString u =
     u_base u @
     (case u_query u of None \<Rightarrow> [] | Some q \<Rightarrow> CHR ''?'' # q) @
     (case u_hash u of None \<Rightarrow> [] | Some f \<Rightarrow> CHR ''#'' # f)"

definition searchParams_delete :: "string \<Rightarrow> URL \<Rightarrow> URL" where
  "searchParams_delete name u =
     (let ps = filter (\<lambda>(n, v). n \<noteq> name) (searchParams u);
          q = urlencoded_serialize ps
      in u\<lparr>searchParams := ps, u_query := (if q = [] then None else Some q)\<rparr>)"

definition searchParams_get :: "string \<Rightarrow> URL \<Rightarrow> string option" where
  "searchParams_get name u = map_of (searchParams u) name"

subsection \<open>Browser monitor: data\<close>

record BrowserMessage =
  msg_url :: "string option"
  msg_file :: "string option"
  msg_method :: "string option"
  requestHeaders :: "(string \<times> string) list option"
  responseHeaders :: "(string \<times> string) list option"
  msg_cookie :: "string option"
  msg_tabUrl :: "string option"
  msg_tabTitle :: "string option"
  msg_tabId :: "string option"
  msg_vid :: "string option"
  msg_contentType :: "string option"
  msg_contentLength :: "int option"
  msg_quality :: "string option"

datatype media_type = video | audio | hls | dash | youtube

text \<open>
  \<^verbatim>\<open>dateAdded\<close> is kept as the time stamp in milliseconds that its ISO string denotes:
  \<^verbatim>\<open>getMediaList\<close> reads it back with \<^verbatim>\<open>new Date(...).getTime()\<close>.
\<close>

record MediaItem =
  mi_id :: string
  mi_name :: string
  mi_description :: string
  mi_tabUrl :: string
  mi_tabId :: string
  mi_dateAdded :: int
  mi_url :: string
  mi_type :: media_type
  mi_size :: int
  mi_contentType :: string
  mi_headers :: "(string \<times> string) list"
  mi_cookies :: "string option"

record BrowserMonitorConfig =
  cfg_enabled :: bool
  fileExtensions :: "string list"
  videoExtensions :: "string list"
  blockedHosts :: "string list"
  mediaTypes :: "string list"
  tabsWatcher :: "string list"
  matchingHosts :: "string list"

definition DEFAULT_CONFIG :: BrowserMonitorConfig where
  "DEFAULT_CONFIG =
     \<lparr>cfg_enabled = True,
      fileExtensions =
        [''.zip'', ''.rar'', ''.7z'', ''.tar'', ''.gz'', ''.bz2'', ''.xz'',
         ''.exe'', ''.msi'', ''.dmg'', ''.deb'', ''.rpm'', ''.appimage'', ''.apk'',
         ''.pdf'', ''.doc'', ''.docx'', ''.xls'', ''.xlsx'', ''.ppt'', ''.pptx'',
         ''.mp3'', ''.flac'', ''.wav'', ''.aac'', ''.ogg'', ''.wma'', ''.m4a'', ''.opus'',
         ''.mp4'', ''.mkv'', ''.avi'', ''.mov'', ''.wmv'', ''.flv'', ''.webm'', ''.m4v'',
         ''.iso'', ''.img'', ''.bin'', ''.torrent'',
         ''.jpg'', ''.jpeg'', ''.png'', ''.gif'', ''.bmp'', ''.svg'', ''.webp'',
         ''.epub'', ''.mobi'', ''.azw3''],
      videoExtensions =
        [''.mp4'', ''.mkv'', ''.webm'', ''.avi'', ''.mov'', ''.flv'', ''.m4v'',
         ''.ts'', ''.m3u8'', ''.mpd'', ''.f4m'',
         ''.mp3'', ''.m4a'', ''.aac'', ''.ogg'', ''.opus'', ''.flac'', ''.wav''],
      blockedHosts =
        [''update.googleapis.com'', ''safebrowsing.googleapis.com'',
         ''clients2.google.com'', ''clients1.google.com'',
         ''translate.googleapis.com''],
      mediaTypes = [''audio/'', ''video/''],
      tabsWatcher = [''.youtube.'', ''/watch?v=''],
      matchingHosts = [''googlevideo'']\<rparr>"

record browser_download =
  bd_url :: string
  bd_fileName :: "string option"
  bd_headers :: "(string \<times> string) list"
  bd_cookies :: "string option"
  bd_referer :: "string option"
  bd_tabUrl :: "string option"

record batch_link =
  bl_url :: string
  bl_fileName :: "string option"
  bl_headers :: "(string \<times> string) list"

datatype monitor_event =
    MediaAdded MediaItem
  | MediaUpdated MediaItem
  | MediaCleared
  | MediaDownload MediaItem
  | BrowserDownload browser_download
  | BrowserBatch "batch_link list"

text \<open>
  The monitor's state: its configuration, the \<^verbatim>\<open>mediaList\<close> map in insertion order and the
  events emitted so far. The monitor holds no reference to the download engine: events are
  its only way to reach a download.
\<close>

record monitor =
  config :: BrowserMonitorConfig
  mediaList :: "(string \<times> MediaItem) list"
  mon_emitted :: "monitor_event list"

text \<open>
  What one call takes from the platform: the identifier \<^verbatim>\<open>generateId()\<close> returns, the clock,
  \<^verbatim>\<open>decodeURIComponent\<close> (\<^term>\<open>None\<close> when it throws), \<^verbatim>\<open>formatSize\<close>, which goes through
  \<^verbatim>\<open>Math.log\<close> and \<^verbatim>\<open>toFixed\<close> on doubles, and the constructor \<^verbatim>\<open>new URL\<close>.
\<close>

record platform =
  generateId :: string
  nowMs :: int
  decodeURIComponent :: "string \<Rightarrow> string option"
  formatSize :: "int \<Rightarrow> string"
  new_URL :: "string \<Rightarrow> URL option"

text \<open>The result of \<^verbatim>\<open>JSON.parse(body)\<close>, as far as the handlers look at it.\<close>

datatype json_body =
    Malformed
  | JMessage BrowserMessage
  | JBatch "BrowserMessage list"
  | JOther

subsection \<open>Browser monitor: helpers\<close>

definition truthy :: "string option \<Rightarrow> bool" where
  "truthy a = (case a of None \<Rightarrow> False | Some v \<Rightarrow> v \<noteq> [])"

definition blocked_headers :: "string list" where
  "blocked_headers =
     [''accept'', ''if-none-match'', ''if-modified-since'', ''authorization'',
      ''proxy-authorization'', ''connection'', ''expect'', ''te'', ''upgrade'',
      ''range'', ''transfer-encoding'', ''content-type'', ''content-length'',
      ''content-encoding'']"

text \<open>
  \<^verbatim>\<open>cleanHeaders\<close> builds the object \<^verbatim>\<open>cleaned\<close> by the assignment \<^verbatim>\<open>cleaned[key] = value\<close>.
  On a plain object that assignment creates or replaces the property \<^verbatim>\<open>key\<close>, with one
  exception: \<^verbatim>\<open>__proto__\<close> is an accessor of the prototype, and assigning a string to it
  changes nothing, so a header of that name is dropped.
\<close>

definition assign :: "string \<Rightarrow> string \<Rightarrow> (string \<times> string) list \<Rightarrow> (string \<times> string) list" where
  "assign key value obj = (if key = ''__proto__'' then obj else AList.update key value obj)"

definition cleanHeaders :: "(string \<times> string) list option \<Rightarrow> (string \<times> string) list" where
  "cleanHeaders hdrs =
     (case hdrs of
        None \<Rightarrow> []
      | Some hs \<Rightarrow>
          foldl (\<lambda>cleaned (key, value).
                   if toLowerCase key \<notin> set blocked_headers
                   then assign key value cleaned else cleaned) [] hs)"

definition isBlockedUrl :: "platform \<Rightarrow> BrowserMonitorConfig \<Rightarrow> string \<Rightarrow> bool" where
  "isBlockedUrl plat cfg u =
     (case new_URL plat u of
        None \<Rightarrow> False
      | Some urlObj \<Rightarrow> list_ex (\<lambda>host. str_includes (u_hostname urlObj) host) (blockedHosts cfg))"

definition shouldInterceptUrl :: "BrowserMonitorConfig \<Rightarrow> string \<Rightarrow> string option \<Rightarrow> bool" where
  "shouldInterceptUrl cfg u contentType =
     (let urlLower = toLowerCase u
      in if list_ex (\<lambda>ext. str_includes urlLower ext) (fileExtensions cfg) then True
         else if truthy contentType then
           (let ct = toLowerCase (the contentType)
            in str_includes ct ''application/octet-stream'' \<or>
               str_includes ct ''application/zip'' \<or>
               str_includes ct ''application/x-rar'' \<or>
               str_includes ct ''application/pdf'' \<or>
               str_includes ct ''application/x-msdownload'' \<or>
               str_includes ct ''application/x-iso'')
         else False)"

definition isHLS :: "string \<Rightarrow> string \<Rightarrow> bool" where
  "isHLS contentType u =
     (str_includes contentType ''mpegurl'' \<or> str_includes contentType ''x-mpegurl'' \<or>
      str_includes (toLowerCase u) ''.m3u8'')"

definition isDASH :: "string \<Rightarrow> string \<Rightarrow> bool" where
  "isDASH contentType u =
     (str_includes contentType ''dash+xml'' \<or> str_includes contentType ''dash'' \<or>
      str_includes (toLowerCase u) ''.mpd'')"

definition isYouTube :: "string \<Rightarrow> string option \<Rightarrow> bool" where
  "isYouTube u tabUrl =
     ((str_includes u ''googlevideo.com'' \<or> str_includes u ''youtube.com'') \<or>
      (case tabUrl of None \<Rightarrow> False | Some t \<Rightarrow> str_includes t ''youtube.com/watch''))"

text \<open>
  \<^verbatim>\<open>s.replace(/&name=[^&]+/, '')\<close>: remove the first \<open>pat\<close> that is followed by at least one
  character other than \<^verbatim>\<open>&\<close>, together with that run of characters.
\<close>

fun strip_param :: "string \<Rightarrow> string \<Rightarrow> string" where
  "strip_param pat [] = []"
| "strip_param pat (c # cs) =
     (let rest = drop (length pat) (c # cs)
      in if prefix pat (c # cs) \<and> rest \<noteq> [] \<and> hd rest \<noteq> CHR ''&''
         then dropWhile (\<lambda>x. x \<noteq> CHR ''&'') rest
         else c # strip_param pat cs)"

definition getYouTubeBaseUrl :: "platform \<Rightarrow> string \<Rightarrow> string" where
  "getYouTubeBaseUrl plat u =
     (case new_URL plat u of
        Some urlObj \<Rightarrow>
          url_toString
            (searchParams_delete ''rbuf''
              (searchParams_delete ''rn''
                (searchParams_delete ''range'' urlObj)))
      | None \<Rightarrow> strip_param ''&rn='' (strip_param ''&range='' u))"

text \<open>
  The table of \<^verbatim>\<open>getYouTubeQuality\<close>. The object literal names the keys 302 and 303 twice;
  the later value stands. Properties that an object inherits are outside the model.
\<close>

definition itagMap :: "(string \<times> string) list" where
  "itagMap =
     [(''18'', ''360p MP4''), (''22'', ''720p MP4''),
      (''133'', ''240p''), (''134'', ''360p''), (''135'', ''480p''),
      (''136'', ''720p''), (''137'', ''1080p''), (''138'', ''4K''),
      (''160'', ''144p''), (''264'', ''1440p''), (''266'', ''2160p''),
      (''298'', ''720p60''), (''299'', ''1080p60''), (''302'', ''720p60 VP9''),
      (''303'', ''1080p60 VP9''), (''308'', ''1440p60''), (''315'', ''2160p60''),
      (''242'', ''240p VP9''), (''243'', ''360p VP9''), (''244'', ''480p VP9''),
      (''247'', ''720p VP9''), (''248'', ''1080p VP9''), (''271'', ''1440p VP9''),
      (''313'', ''2160p VP9''),
      (''139'', ''Audio 48k''), (''140'', ''Audio 128k''), (''141'', ''Audio 256k''),
      (''171'', ''Audio Vorbis''), (''249'', ''Audio Opus 50k''),
      (''250'', ''Audio Opus 70k''), (''251'', ''Audio Opus 160k'')]"

definition getYouTubeQuality :: "platform \<Rightarrow> string \<Rightarrow> string" where
  "getYouTubeQuality plat u =
     (case new_URL plat u of
        None \<Rightarrow> []
      | Some urlObj \<Rightarrow>
          (let itag = searchParams_get ''itag'' urlObj;
               mime = or_else (searchParams_get ''mime'' urlObj) []
           in if \<not> truthy itag then []
              else (case map_of itagMap (the itag) of
                      Some q \<Rightarrow> q
                    | None \<Rightarrow>
                        if str_includes mime ''video'' then ''Video (itag '' @ the itag @ '')''
                        else if str_includes mime ''audio'' then ''Audio (itag '' @ the itag @ '')''
                        else ''itag '' @ the itag)))"

definition mon_getFileNameFromUrl :: "platform \<Rightarrow> string \<Rightarrow> string" where
  "mon_getFileNameFromUrl plat u =
     (case new_URL plat u of
        None \<Rightarrow> ''media''
      | Some urlObj \<Rightarrow>
          (case decodeURIComponent plat (last (split_on CHR ''/'' (pathname urlObj))) of
             None \<Rightarrow> ''media''
           | Some d \<Rightarrow> if d = [] then ''media'' else d))"

text \<open>The separator \<^verbatim>\<open>' \<bullet> '\<close>: a space, the three bytes of U+2022, a space.\<close>

definition bullet :: string where
  "bullet = [CHR '' '', CHR 0xE2, CHR 0x80, CHR 0xA2, CHR '' '']"

fun join_with :: "string \<Rightarrow> string list \<Rightarrow> string" where
  "join_with sep [] = []"
| "join_with sep [x] = x"
| "join_with sep (x # y # ys) = x @ sep @ join_with sep (y # ys)"

definition getMediaDescription :: "platform \<Rightarrow> BrowserMessage \<Rightarrow> media_type \<Rightarrow> string" where
  "getMediaDescription plat msg ty =
     join_with bullet
       ([case ty of youtube \<Rightarrow> ''YouTube'' | hls \<Rightarrow> ''HLS Stream'' | dash \<Rightarrow> ''DASH Stream''
                  | audio \<Rightarrow> ''Audio'' | video \<Rightarrow> ''Video''] @
        (case msg_contentLength msg of
           None \<Rightarrow> []
         | Some n \<Rightarrow> if n \<noteq> 0 \<and> n > 0 then [formatSize plat n] else []) @
        (if truthy (msg_quality msg) then [the (msg_quality msg)] else []))"

definition sanitizeFileName :: "string \<Rightarrow> string" where
  "sanitizeFileName name =
     trim (map (\<lambda>c. if c \<in> set [CHR ''<'', CHR ''>'', CHR '':'', CHR 0x22, CHR ''/'',
                                  CHR 0x5C, CHR ''|'', CHR ''?'', CHR ''*'']
                     then CHR ''_'' else c) name)"

text \<open>\<^verbatim>\<open>s.replace(/ - YouTube$/, '')\<close>.\<close>

definition strip_youtube_suffix :: "string \<Rightarrow> string" where
  "strip_youtube_suffix s =
     (if suffix '' - YouTube'' s then take (length s - length '' - YouTube'') s else s)"

subsection \<open>Browser monitor: message handlers\<close>

text \<open>
  Every handler wraps its body in \<^verbatim>\<open>try\<close>/\<^verbatim>\<open>catch\<close>: a body that \<^verbatim>\<open>JSON.parse\<close> rejects, or
  that is not of the shape the handler reads, is logged and leaves the state as it is.
\<close>

definition onDownloadMessage :: "platform \<Rightarrow> json_body \<Rightarrow> monitor \<Rightarrow> monitor" where
  "onDownloadMessage plat body st =
     (case body of
        JMessage msg \<Rightarrow>
          if \<not> truthy (msg_url msg) then st
          else if isBlockedUrl plat (config st) (the (msg_url msg)) then st
          else if \<not> shouldInterceptUrl (config st) (the (msg_url msg)) (msg_contentType msg) then st
          else st\<lparr>mon_emitted := mon_emitted st @
                    [BrowserDownload
                       \<lparr>bd_url = the (msg_url msg), bd_fileName = msg_file msg,
                        bd_headers = cleanHeaders (requestHeaders msg),
                        bd_cookies = msg_cookie msg, bd_referer = msg_tabUrl msg,
                        bd_tabUrl = msg_tabUrl msg\<rparr>]\<rparr>
      | _ \<Rightarrow> st)"

text \<open>
  The content type a media message is judged by:
  \<^verbatim>\<open>msg.contentType || responseHeaders['content-type'] || responseHeaders['Content-Type'] || ''\<close>.
\<close>

definition header_of :: "(string \<times> string) list option \<Rightarrow> string \<Rightarrow> string option" where
  "header_of hdrs k = (case hdrs of None \<Rightarrow> None | Some hs \<Rightarrow> map_of hs k)"

definition effective_contentType :: "BrowserMessage \<Rightarrow> string" where
  "effective_contentType msg =
     or_else (msg_contentType msg)
       (or_else (header_of (responseHeaders msg) ''content-type'')
          (or_else (header_of (responseHeaders msg) ''Content-Type'') []))"

text \<open>The strict filter on the lower-cased content type.\<close>

definition web_resource :: "string \<Rightarrow> bool" where
  "web_resource ct =
     (startsWith ct ''text/'' \<or> str_includes ct ''javascript'' \<or> str_includes ct ''json'' \<or>
      str_includes ct ''xml'' \<or> startsWith ct ''font/'' \<or> startsWith ct ''image/svg'')"

definition existingBase :: "platform \<Rightarrow> MediaItem \<Rightarrow> string" where
  "existingBase plat existing =
     (if isYouTube (mi_url existing) (Some []) then getYouTubeBaseUrl plat (mi_url existing)
      else mi_url existing)"

definition onMediaMessage :: "platform \<Rightarrow> json_body \<Rightarrow> monitor \<Rightarrow> monitor" where
  "onMediaMessage plat body st =
     (case body of
        JMessage msg \<Rightarrow>
          if \<not> truthy (msg_url msg) then st
          else
            (let u = the (msg_url msg);
                 contentType = effective_contentType msg;
                 contentLength = (case msg_contentLength msg of None \<Rightarrow> 0 | Some n \<Rightarrow> n);
                 ct = toLowerCase contentType
             in if web_resource ct then st
                else
                  (let isYouTubeStream = isYouTube u (msg_tabUrl msg)
                   in if \<not> isYouTubeStream \<and> contentLength > 0 \<and> contentLength < 500 * 1024
                      then st
                      else
                        (let ty = (if isHLS contentType u then hls
                                   else if isDASH contentType u then dash
                                   else if isYouTube u (msg_tabUrl msg) then youtube
                                   else if startsWith ct ''audio/'' then audio
                                   else video);
                             name = (if ty = youtube \<and> truthy (msg_file msg) \<and>
                                        \<not> str_includes (the (msg_file msg)) ''/''
                                     then strip_youtube_suffix (the (msg_file msg)) @ ''.mp4''
                                     else mon_getFileNameFromUrl plat u);
                             ident = generateId plat;
                             media = \<lparr>mi_id = ident, mi_name = name,
                                      mi_description = getMediaDescription plat msg ty,
                                      mi_tabUrl = or_else (msg_tabUrl msg) [],
                                      mi_tabId = or_else (msg_tabId msg) [],
                                      mi_dateAdded = nowMs plat,
                                      mi_url = u, mi_type = ty, mi_size = contentLength,
                                      mi_contentType = contentType,
                                      mi_headers = cleanHeaders (requestHeaders msg),
                                      mi_cookies = msg_cookie msg\<rparr>;
                             dedupeUrl = (if isYouTubeStream then getYouTubeBaseUrl plat u else u);
                             q = (if truthy (msg_quality msg) then the (msg_quality msg)
                                  else getYouTubeQuality plat u);
                             media' = (if isYouTubeStream
                                       then media\<lparr>mi_description :=
                                                     (if q \<noteq> [] then mi_description media @ bullet @ q
                                                      else mi_description media),
                                                   mi_url := dedupeUrl\<rparr>
                                       else media)
                         in if list_ex (\<lambda>(k, existing). existingBase plat existing = dedupeUrl)
                                 (mediaList st)
                            then st
                            else st\<lparr>mediaList := AList.update ident media' (mediaList st),
                                    mon_emitted := mon_emitted st @ [MediaAdded media']\<rparr>)))
      | _ \<Rightarrow> st)"

definition onVideoDownloadMessage :: "json_body \<Rightarrow> monitor \<Rightarrow> monitor" where
  "onVideoDownloadMessage body st =
     (case body of
        JMessage msg \<Rightarrow>
          if \<not> truthy (msg_vid msg) then st
          else (case map_of (mediaList st) (the (msg_vid msg)) of
                  None \<Rightarrow> st
                | Some media \<Rightarrow> st\<lparr>mon_emitted := mon_emitted st @ [MediaDownload media]\<rparr>)
      | _ \<Rightarrow> st)"

definition retitle :: "string \<Rightarrow> MediaItem \<Rightarrow> MediaItem" where
  "retitle tabTitle media =
     (let ext = (if str_includes (mi_name media) ''.''
                 then CHR ''.'' # last (split_on CHR ''.'' (mi_name media)) else [])
      in media\<lparr>mi_name := sanitizeFileName tabTitle @ ext\<rparr>)"

definition onTabUpdateMessage :: "json_body \<Rightarrow> monitor \<Rightarrow> monitor" where
  "onTabUpdateMessage body st =
     (case body of
        JMessage msg \<Rightarrow>
          if \<not> truthy (msg_tabUrl msg) \<or> \<not> truthy (msg_tabTitle msg) then st
          else
            (let hit = (\<lambda>media. mi_tabUrl media = the (msg_tabUrl msg));
                 ml = map (\<lambda>(k, media). (k, if hit media then retitle (the (msg_tabTitle msg)) media
                                              else media)) (mediaList st)
             in st\<lparr>mediaList := ml,
                   mon_emitted := mon_emitted st @
                     map (\<lambda>(k, media). MediaUpdated media) (filter (\<lambda>(k, media). hit media) ml)\<rparr>)
      | _ \<Rightarrow> st)"

definition onBatchMessage :: "json_body \<Rightarrow> monitor \<Rightarrow> monitor" where
  "onBatchMessage body st =
     (case body of
        JBatch messages \<Rightarrow>
          (let links = map (\<lambda>msg. \<lparr>bl_url = the (msg_url msg), bl_fileName = msg_file msg,
                                    bl_headers = cleanHeaders (requestHeaders msg)\<rparr>)
                         (filter (\<lambda>msg. truthy (msg_url msg)) messages)
           in if length links > 0
              then st\<lparr>mon_emitted := mon_emitted st @ [BrowserBatch links]\<rparr> else st)
      | _ \<Rightarrow> st)"

definition clearMediaList :: "monitor \<Rightarrow> monitor" where
  "clearMediaList st = st\<lparr>mediaList := [], mon_emitted := mon_emitted st @ [MediaCleared]\<rparr>"

subsection \<open>Browser monitor: \<^verbatim>\<open>handleRequest\<close> and the sync response\<close>

text \<open>\<^verbatim>\<open>getMediaList\<close>: the values of the map in a stable sort, newest first.\<close>

definition getMediaList :: "monitor \<Rightarrow> MediaItem list" where
  "getMediaList st = sort_key (\<lambda>m. - mi_dateAdded m) (map snd (mediaList st))"

record video_entry =
  ve_id :: string
  ve_text :: string
  ve_info :: string
  ve_tabId :: string
  ve_size :: int
  ve_type :: media_type

record sync_snapshot =
  sync_enabled :: bool
  fileExts :: "string list"
  sync_blockedHosts :: "string list"
  requestFileExts :: "string list"
  sync_mediaTypes :: "string list"
  sync_tabsWatcher :: "string list"
  videoList :: "video_entry list"
  sync_matchingHosts :: "string list"

datatype response_body = NoBody | SyncBody sync_snapshot | TextBody string

record response =
  statusCode :: int
  res_body :: response_body

definition snapshot_of :: "monitor \<Rightarrow> sync_snapshot" where
  "snapshot_of st =
     \<lparr>sync_enabled = cfg_enabled (config st),
      fileExts = fileExtensions (config st),
      sync_blockedHosts = blockedHosts (config st),
      requestFileExts = videoExtensions (config st),
      sync_mediaTypes = mediaTypes (config st),
      sync_tabsWatcher = tabsWatcher (config st),
      videoList = map (\<lambda>m. \<lparr>ve_id = mi_id m, ve_text = mi_name m, ve_info = mi_description m,
                              ve_tabId = mi_tabId m, ve_size = mi_size m, ve_type = mi_type m\<rparr>)
                    (getMediaList st),
      sync_matchingHosts = matchingHosts (config st)\<rparr>"

definition sendSyncResponse :: "monitor \<Rightarrow> response" where
  "sendSyncResponse st = \<lparr>statusCode = 200, res_body = SyncBody (snapshot_of st)\<rparr>"

text \<open>
  \<^verbatim>\<open>handleRequest\<close> on a request with method \<open>method\<close>, path \<open>path\<close> (\<^verbatim>\<open>req.url || '/'\<close>) and a
  body whose parse is \<open>body\<close>. The handlers and \<^verbatim>\<open>emit\<close> throw nothing, so the \<^verbatim>\<open>catch\<close>
  that answers 500 is not reached.
\<close>

definition handleRequest ::
  "platform \<Rightarrow> string \<Rightarrow> string \<Rightarrow> json_body \<Rightarrow> monitor \<Rightarrow> response \<times> monitor"
where
  "handleRequest plat method path body st =
     (if method = ''OPTIONS'' then (\<lparr>statusCode = 204, res_body = NoBody\<rparr>, st)
      else
        (let st' = (if path = ''/sync'' then st
                    else if path = ''/download'' then onDownloadMessage plat body st
                    else if path = ''/media'' then onMediaMessage plat body st
                    else if path = ''/vid'' then onVideoDownloadMessage body st
                    else if path = ''/tab-update'' then onTabUpdateMessage body st
                    else if path = ''/clear'' then clearMediaList st
                    else if path = ''/link'' then onBatchMessage body st
                    else st)
         in (sendSyncResponse st', st')))"

subsection \<open>Example states\<close>

text \<open>
  A running download of 100 bytes in its single segment; then its worker receives a
  response head, one chunk of 40 bytes and the end of the body.
\<close>

definition small_item :: DownloadItem where
  "small_item =
     example_item\<lparr>fileSize := 100, status := downloading,
       segments := [new_segment ''s0'' 0 100]\<rparr>"

definition short_read_item :: DownloadItem where
  "short_read_item = worker_run 0 [ResponseHead, Chunk False 40, End] small_item"

text \<open>An engine whose only download is that running one, with its worker registered.\<close>

definition example_engine :: engine where
  "example_engine =
     \<lparr>downloads = [''d1'' \<mapsto> small_item],
      activeDownloads =
        [''d1'' \<mapsto> \<lparr>abortControllers = {''s0''}, ad_startTime = 0, bytesAtStart = 0,
                       lastSpeedCalcTime = 0, lastSpeedCalcBytes = 0\<rparr>],
      emitted = [DownloadStarted small_item]\<rparr>"

text \<open>
  A failed download of 600000 bytes in two segments: the first is finished, the second
  failed after 30 bytes.
\<close>

definition failed_item :: DownloadItem where
  "failed_item =
     example_item\<lparr>fileSize := 600000, status := failed, downloaded := 300030,
       segments :=
         [(new_segment ''s0'' 0 300000)\<lparr>s_downloaded := 300000, s_state := Finished\<rparr>,
          (new_segment ''s1'' 300000 300000)\<lparr>s_downloaded := 30, s_state := Failed\<rparr>]\<rparr>"

definition failed_engine :: engine where
  "failed_engine =
     \<lparr>downloads = [''d1'' \<mapsto> failed_item], activeDownloads = Map.empty, emitted = []\<rparr>"

text \<open>Sample inputs of the browser monitor, the probe and the scheduler.\<close>

definition empty_monitor :: monitor where
  "empty_monitor = \<lparr>config = DEFAULT_CONFIG, mediaList = [], mon_emitted = []\<rparr>"

text \<open>A monitor that has stored one media item.\<close>

definition example_media :: MediaItem where
  "example_media =
     \<lparr>mi_id = ''m0'', mi_name = ''clip.mp4'', mi_description = ''MP4'', mi_tabUrl = [],
      mi_tabId = [], mi_dateAdded = 0, mi_url = ''https://cdn.example.com/clip.mp4'',
      mi_type = video, mi_size = 2000000, mi_contentType = ''video/mp4'', mi_headers = [],
      mi_cookies = None\<rparr>"

definition watching_monitor :: monitor where
  "watching_monitor = empty_monitor\<lparr>mediaList := [(''m0'', example_media)]\<rparr>"

definition empty_message :: BrowserMessage where
  "empty_message =
     \<lparr>msg_url = None, msg_file = None, msg_method = None, requestHeaders = None,
      responseHeaders = None, msg_cookie = None, msg_tabUrl = None, msg_tabTitle = None,
      msg_tabId = None, msg_vid = None, msg_contentType = None, msg_contentLength = None,
      msg_quality = None\<rparr>"

definition junk_message :: BrowserMessage where
  "junk_message =
     empty_message\<lparr>msg_url := Some ''https://cdn.example.com/app.js'',
                   msg_contentType := Some ''application/javascript'',
                   msg_contentLength := Some 2000000\<rparr>"








definition friday_night :: QueueSchedule where
  "friday_night = \<lparr>sch_enabled = True, startTime = ''22:00'', endTime = ''02:00'', days = [5]\<rparr>"

definition friday_2330 :: wall_clock where
  "friday_2330 = \<lparr>getDay = 5, getHours = 23, getMinutes = 30\<rparr>"



text \<open>
  The canonical form of a parsed URL: the parameters \<^verbatim>\<open>range\<close>, \<^verbatim>\<open>rn\<close> and \<^verbatim>\<open>rbuf\<close> removed
  and the query rewritten from the remaining list.
\<close>

definition range_param :: "string \<Rightarrow> bool" where
  "range_param n = (n = ''range'' \<or> n = ''rn'' \<or> n = ''rbuf'')"

definition canonical_url :: "URL \<Rightarrow> URL" where
  "canonical_url p =
     (let ps = filter (\<lambda>(n, v). \<not> range_param n) (searchParams p);
          q = urlencoded_serialize ps
      in p\<lparr>searchParams := ps, u_query := (if q = [] then None else Some q)\<rparr>)"

text \<open>Two chunk requests of one YouTube stream, and the URL without the range.\<close>

definition yt_url_1 :: string where
  "yt_url_1 = ''https://rr1---sn-x.googlevideo.com/videoplayback?itag=137&range=0-65535''"

definition yt_url_2 :: string where
  "yt_url_2 = ''https://rr1---sn-x.googlevideo.com/videoplayback?itag=137&range=65536-131071''"

definition yt_url_base :: string where
  "yt_url_base = ''https://rr1---sn-x.googlevideo.com/videoplayback?itag=137''"

definition yt_parsed_1 :: URL where
  "yt_parsed_1 =
     \<lparr>u_base = ''https://rr1---sn-x.googlevideo.com/videoplayback'',
      u_hostname = ''rr1---sn-x.googlevideo.com'', pathname = ''/videoplayback'',
      u_query = Some ''itag=137&range=0-65535'',
      searchParams = [(''itag'', ''137''), (''range'', ''0-65535'')], u_hash = None\<rparr>"

definition yt_parsed_2 :: URL where
  "yt_parsed_2 =
     \<lparr>u_base = ''https://rr1---sn-x.googlevideo.com/videoplayback'',
      u_hostname = ''rr1---sn-x.googlevideo.com'', pathname = ''/videoplayback'',
      u_query = Some ''itag=137&range=65536-131071'',
      searchParams = [(''itag'', ''137''), (''range'', ''65536-131071'')], u_hash = None\<rparr>"

definition yt_parsed_base :: URL where
  "yt_parsed_base =
     \<lparr>u_base = ''https://rr1---sn-x.googlevideo.com/videoplayback'',
      u_hostname = ''rr1---sn-x.googlevideo.com'', pathname = ''/videoplayback'',
      u_query = Some ''itag=137'',
      searchParams = [(''itag'', ''137'')], u_hash = None\<rparr>"

text \<open>
  Two chunk requests whose host is written in upper case; the constructor gives the host in
  lower case.
\<close>

definition upper_url_1 :: string where
  "upper_url_1 = ''https://WWW.YOUTUBE.COM/videoplayback?itag=18&range=0-65535''"

definition upper_url_2 :: string where
  "upper_url_2 = ''https://WWW.YOUTUBE.COM/videoplayback?itag=18&range=65536-131071''"

definition upper_parsed_1 :: URL where
  "upper_parsed_1 =
     \<lparr>u_base = ''https://www.youtube.com/videoplayback'',
      u_hostname = ''www.youtube.com'', pathname = ''/videoplayback'',
      u_query = Some ''itag=18&range=0-65535'',
      searchParams = [(''itag'', ''18''), (''range'', ''0-65535'')], u_hash = None\<rparr>"

definition upper_parsed_2 :: URL where
  "upper_parsed_2 =
     \<lparr>u_base = ''https://www.youtube.com/videoplayback'',
      u_hostname = ''www.youtube.com'', pathname = ''/videoplayback'',
      u_query = Some ''itag=18&range=65536-131071'',
      searchParams = [(''itag'', ''18''), (''range'', ''65536-131071'')], u_hash = None\<rparr>"

text \<open>
  The platform of the examples. Its constructor is the platform's on the URLs the examples
  hand to it, which are those of this table.
\<close>

definition example_URLs :: "(string \<times> URL) list" where
  "example_URLs =
     [(yt_url_1, yt_parsed_1), (yt_url_2, yt_parsed_2), (yt_url_base, yt_parsed_base),
      (upper_url_1, upper_parsed_1), (upper_url_2, upper_parsed_2)]"

definition example_platform :: platform where
  "example_platform =
     \<lparr>generateId = ''m1'', nowMs = 0, decodeURIComponent = (\<lambda>s. Some s), formatSize = show_int,
      new_URL = map_of example_URLs\<rparr>"

definition later_platform :: platform where
  "later_platform = example_platform\<lparr>generateId := ''m2'', nowMs := 1\<rparr>"

definition yt_message :: "string \<Rightarrow> string \<Rightarrow> BrowserMessage" where
  "yt_message u ct = empty_message\<lparr>msg_url := Some u, msg_contentType := Some ct\<rparr>"

section \<open>Verified properties\<close>

subsection \<open>Segmenter\<close>

lemma segment_loop_eq:
  "segment_loop gen T N sz i segs =
     segs @ map (\<lambda>j. new_segment (gen (nat j)) (j * sz) (if j = N - 1 then T - j * sz else sz))
              [i..N - 1]"
proof (induction gen T N sz i segs rule: segment_loop.induct)
  case (1 gen T N sz i segs)
  show ?case
  proof (cases "i < N")
    case True
    then have "[i..N - 1] = i # [i + 1..N - 1]"
      by (simp add: upto_rec1)
    with True "1.IH" show ?thesis
      by (subst segment_loop.simps) (simp add: Let_def)
  next
    case False
    then show ?thesis
      by (subst segment_loop.simps) simp
  qed
qed



text \<open>A configured bound below one leaves the loop without a single round.\<close>

lemma initializeSegments_no_segments:
  assumes "0 < fileSize item" "resumable item" "maxSegments item \<le> 0"
  shows "initializeSegments gen item = []"
  using assms by (simp add: initializeSegments_def Let_def segment_loop_eq segmentCount_of_def)



text \<open>
  The example download: one megabyte, at most four segments, gives three segments. The
  segments of the smaller example states are the segmenter's as well.
\<close>

lemma example_states_segmented:
  "initializeSegments example_gen (example_item\<lparr>fileSize := 100\<rparr>) = [new_segment ''s0'' 0 100]"
  "map (\<lambda>s. (s_id s, s_offset s, s_length s))
     (initializeSegments example_gen (example_item\<lparr>fileSize := 600000\<rparr>)) =
   [(''s0'', 0, 300000), (''s1'', 300000, 300000)]"
  by code_simp+

lemma example_item_segments:
  "map (\<lambda>s. (s_offset s, s_length s)) (initializeSegments example_gen example_item) =
     [(0, 333333), (333333, 333333), (666666, 333334)]"
  by (simp add: initializeSegments_def example_item_def segmentCount_of_def Let_def
        segment_loop_eq new_segment_def upto_rec1)


subsection \<open>Segment worker\<close>

lemma short_read_item_eval:
  "segments short_read_item =
     [\<lparr>s_id = ''s0'', s_offset = 0, s_length = 100, s_downloaded = 40,
       s_state = Finished, s_speed = 40\<rparr>]"
  by (simp add: short_read_item_def small_item_def worker_run_def worker_step_def
        example_item_def new_segment_def)

text \<open>
  C1, as stated, fails: the worker above ends its response after 40 of 100 bytes and its
  segment is marked finished, not failed.
\<close>

theorem clean_eof_short_read_counterexample:
  "\<not> ((s_state (segments short_read_item ! 0) = Finished) =
       (s_length (segments short_read_item ! 0) = - 1 \<or>
        s_downloaded (segments short_read_item ! 0) = s_length (segments short_read_item ! 0))) \<and>
   s_state (segments short_read_item ! 0) \<noteq> Failed"
  by (simp add: short_read_item_eval)

text \<open>
  C1, amended. When the response of a segment worker ends with a clean end of body, the
  segment is marked finished, whatever its length and its count of downloaded bytes; the
  handler compares nothing and changes neither of them, nor the download's counter.
\<close>

theorem clean_eof_marks_finished:
  "k < length (segments item) \<Longrightarrow>
     s_state (segments (worker_step k End item) ! k) = Finished \<and>
     s_length (segments (worker_step k End item) ! k) = s_length (segments item ! k) \<and>
     s_downloaded (segments (worker_step k End item) ! k) = s_downloaded (segments item ! k) \<and>
     downloaded (worker_step k End item) = downloaded item"
  by (simp add: worker_step_def)

theorem clean_eof_marks_finished_witness:
  "(0::nat) < length (segments small_item) \<and>
   s_state (segments (worker_step 0 End small_item) ! 0) = Finished \<and>
   s_downloaded (segments (worker_step 0 End small_item) ! 0) = 0 \<and>
   s_length (segments (worker_step 0 End small_item) ! 0) = 100"
proof -
  have h: "0 < length (segments small_item)" by (simp add: small_item_def)
  have v: "s_downloaded (segments small_item ! 0) = 0" "s_length (segments small_item ! 0) = 100"
    by (simp_all add: small_item_def new_segment_def)
  from clean_eof_marks_finished [OF h] h v show ?thesis by simp
qed

subsection \<open>Download supervisor\<close>

text \<open>
  C10. \<^const>\<open>startDownload\<close> on the id of a download whose status is \<^verbatim>\<open>downloading\<close> returns
  that item and leaves the engine as it was: the item and its segments are unchanged, no
  worker is registered and no event is emitted.
\<close>

theorem startDownload_downloading_noop:
  "downloads e ident = Some item \<Longrightarrow> status item = downloading \<Longrightarrow>
     startDownload gen now ident e = (Some item, e)"
  by (simp add: startDownload_def)

theorem startDownload_downloading_noop_witness:
  "downloads example_engine ''d1'' = Some small_item \<and>
   status small_item = downloading \<and>
   startDownload example_gen 5 ''d1'' example_engine = (Some small_item, example_engine)"
proof -
  have h1: "downloads example_engine ''d1'' = Some small_item"
    by (simp add: example_engine_def)
  have h2: "status small_item = downloading" by (simp add: small_item_def)
  from startDownload_downloading_noop [OF h1 h2] h1 h2 show ?thesis by blast
qed

lemma foldl_downloaded:
  "foldl (\<lambda>sum s. sum + s_downloaded s) a segs = a + sum_list (map s_downloaded segs)"
  by (induction segs arbitrary: a) simp_all

lemma initializeSegments_fresh:
  "s \<in> set (initializeSegments gen item) \<Longrightarrow> s_downloaded s = 0 \<and> s_state s = NotStarted"
  by (auto simp: initializeSegments_def Let_def segment_loop_eq new_segment_def split: if_splits)

lemma initializeSegments_downloaded_sum:
  "sum_list (map s_downloaded (initializeSegments gen item)) = 0"
proof -
  have "map s_downloaded (initializeSegments gen item) =
      map (\<lambda>s. 0) (initializeSegments gen item)"
    by (rule map_cong) (simp_all add: initializeSegments_fresh)
  then show ?thesis by (simp only: sum_list_0)
qed

lemma reduce_downloaded:
  "foldl (\<lambda>sum s. sum + s_downloaded s) 0 segs = sum_list (map s_downloaded segs)"
  by (simp add: foldl_downloaded)

text \<open>
  C8. \<^const>\<open>retryDownload\<close> on a known download returns the item it stored; every segment the
  item had is reset to not-started with no downloaded byte unless it was finished, in which
  case it is untouched; and the item's \<^verbatim>\<open>downloaded\<close> is the sum over its segments (I1), also
  when the item had no segment yet and \<^const>\<open>startDownload\<close> creates them.
\<close>

theorem retryDownload_resets:
  assumes "downloads e ident = Some item"
      and "retryDownload gen now ident e = (r, e')"
  shows "\<exists>item'. r = Some item' \<and> downloads e' ident = Some item' \<and>
           (segments item \<noteq> [] \<longrightarrow>
              length (segments item') = length (segments item) \<and>
              (\<forall>k < length (segments item).
                 if s_state (segments item ! k) = Finished
                 then segments item' ! k = segments item ! k
                 else segments item' ! k =
                        (segments item ! k)\<lparr>s_state := NotStarted, s_downloaded := 0\<rparr>)) \<and>
           downloaded item' = sum_list (map s_downloaded (segments item'))"
proof -
  define segs where "segs = map retry_segment (segments item)"
  define item1 where
    "item1 = item\<lparr>segments := segs, downloaded := sum_list (map s_downloaded segs), error := None\<rparr>"
  define e1 where "e1 = e\<lparr>downloads := (downloads e)(ident \<mapsto> item1)\<rparr>"
  have step: "retryDownload gen now ident e = startDownload gen now ident e1"
    using assms(1)
    by (simp add: retryDownload_def Let_def e1_def item1_def segs_def reduce_downloaded)
  have res: "startDownload gen now ident e1 = (r, e')"
    using step assms(2) by simp
  have look: "downloads e1 ident = Some item1" by (simp add: e1_def)
  have nth: "\<forall>k < length (segments item).
      if s_state (segments item ! k) = Finished then segs ! k = segments item ! k
      else segs ! k = (segments item ! k)\<lparr>s_state := NotStarted, s_downloaded := 0\<rparr>"
    by (simp add: segs_def retry_segment_def)
  have len: "length segs = length (segments item)" by (simp add: segs_def)
  show ?thesis
  proof (cases "status item = downloading")
    case True
    then have "startDownload gen now ident e1 = (Some item1, e1)"
      using look by (simp add: startDownload_def item1_def)
    with res have r: "r = Some item1" "e' = e1" by simp_all
    show ?thesis
      using r look nth len by (intro exI [of _ item1]) (simp add: item1_def)
  next
    case False
    show ?thesis
    proof (cases "segs = []")
      case True
      define item2 where
        "item2 = item1\<lparr>segments := initializeSegments gen item1, status := downloading, error := None\<rparr>"
      have "fst (startDownload gen now ident e1) = Some item2"
        "downloads (snd (startDownload gen now ident e1)) ident = Some item2"
        using look False True
        by (simp_all add: startDownload_def Let_def item1_def item2_def)
      with res have r: "r = Some item2" "downloads e' ident = Some item2" by simp_all
      have "segments item = []" using True len by simp
      moreover have "downloaded item2 = sum_list (map s_downloaded (segments item2))"
        using True by (simp add: item2_def item1_def initializeSegments_downloaded_sum)
      ultimately show ?thesis using r by simp
    next
      case nonempty: False
      define item2 where "item2 = item1\<lparr>status := downloading, error := None\<rparr>"
      have "fst (startDownload gen now ident e1) = Some item2"
        "downloads (snd (startDownload gen now ident e1)) ident = Some item2"
        using look False nonempty
        by (simp_all add: startDownload_def Let_def item1_def item2_def)
      with res have r: "r = Some item2" "downloads e' ident = Some item2" by simp_all
      have "segments item2 = segs" "downloaded item2 = sum_list (map s_downloaded segs)"
        by (simp_all add: item2_def item1_def)
      then show ?thesis using r nth len by (intro exI [of _ item2]) simp
    qed
  qed
qed

text \<open>Retrying the failed example keeps the finished bytes and drops the 30 others.\<close>

lemma failed_engine_retry:
  "map_option (\<lambda>it. (downloaded it, map (\<lambda>s. (s_state s, s_downloaded s)) (segments it)))
     (fst (retryDownload example_gen 0 ''d1'' failed_engine)) =
   Some (300000, [(Finished, 300000), (NotStarted, 0)])"
  by (simp add: retryDownload_def startDownload_def failed_engine_def failed_item_def
        example_item_def new_segment_def retry_segment_def Let_def)

theorem retryDownload_resets_witness:
  "downloads failed_engine ''d1'' = Some failed_item \<and>
   (\<exists>item'. fst (retryDownload example_gen 0 ''d1'' failed_engine) = Some item' \<and>
      downloads (snd (retryDownload example_gen 0 ''d1'' failed_engine)) ''d1'' = Some item' \<and>
      (segments failed_item \<noteq> [] \<longrightarrow>
         length (segments item') = length (segments failed_item) \<and>
         (\<forall>k < length (segments failed_item).
            if s_state (segments failed_item ! k) = Finished
            then segments item' ! k = segments failed_item ! k
            else segments item' ! k =
                   (segments failed_item ! k)\<lparr>s_state := NotStarted, s_downloaded := 0\<rparr>)) \<and>
      downloaded item' = sum_list (map s_downloaded (segments item')))"
proof -
  have h1: "downloads failed_engine ''d1'' = Some failed_item"
    by (simp add: failed_engine_def)
  have h2: "retryDownload example_gen 0 ''d1'' failed_engine =
      (fst (retryDownload example_gen 0 ''d1'' failed_engine),
       snd (retryDownload example_gen 0 ''d1'' failed_engine))"
    by simp
  from retryDownload_resets [OF h1 h2] h1 show ?thesis by blast
qed

subsection \<open>Browser monitor: the media filter and the request handler\<close>

lemma str_includes_map:
  "str_includes s sub \<Longrightarrow> str_includes (map f s) (map f sub)"
  by (induction s) (auto simp: map_mono_prefix dest: map_mono_prefix [where f = f])

lemma web_resource_lower:
  assumes "web_resource ct"
  shows "web_resource (toLowerCase ct)"
proof -
  have lits: "toLowerCase ''text/'' = ''text/''" "toLowerCase ''javascript'' = ''javascript''"
    "toLowerCase ''json'' = ''json''" "toLowerCase ''xml'' = ''xml''"
    "toLowerCase ''font/'' = ''font/''" "toLowerCase ''image/svg'' = ''image/svg''"
    by (simp_all add: toLowerCase_def lower_char_def)
  have p: "startsWith ct x \<Longrightarrow> startsWith (toLowerCase ct) (toLowerCase x)" for x
    by (simp add: startsWith_def toLowerCase_def map_mono_prefix)
  have i: "str_includes ct x \<Longrightarrow> str_includes (toLowerCase ct) (toLowerCase x)" for x
    by (simp add: toLowerCase_def str_includes_map)
  from assms show ?thesis
    unfolding web_resource_def using p i lits by metis
qed

text \<open>
  C9. A \<^verbatim>\<open>POST /media\<close> message with a URL changes nothing (no media item is added and no
  event is emitted) when it is not classified as YouTube and reports a content length that
  is positive and below \<open>500 \<cdot> 1024\<close>, or when its effective content type, as sent or in
  lower case, starts with \<^verbatim>\<open>text/\<close>, \<^verbatim>\<open>font/\<close> or \<^verbatim>\<open>image/svg\<close> or contains \<^verbatim>\<open>javascript\<close>,
  \<^verbatim>\<open>json\<close> or \<^verbatim>\<open>xml\<close>.
\<close>

theorem media_junk_filtered:
  assumes "msg_url msg = Some u"
      and "(\<not> isYouTube u (msg_tabUrl msg) \<and>
            (\<exists>n. msg_contentLength msg = Some n \<and> 0 < n \<and> n < 500 * 1024)) \<or>
           web_resource (effective_contentType msg) \<or>
           web_resource (toLowerCase (effective_contentType msg))"
  shows "snd (handleRequest plat ''POST'' ''/media'' (JMessage msg) st) = st"
proof -
  have "onMediaMessage plat (JMessage msg) st = st"
  proof (cases "web_resource (toLowerCase (effective_contentType msg))")
    case True
    then show ?thesis by (simp add: onMediaMessage_def Let_def)
  next
    case False
    with assms(2) web_resource_lower
    have "\<not> isYouTube u (msg_tabUrl msg)"
      "\<exists>n. msg_contentLength msg = Some n \<and> 0 < n \<and> n < 500 * 1024"
      by blast+
    then show ?thesis using assms(1) by (auto simp: onMediaMessage_def Let_def)
  qed
  then show ?thesis by (simp add: handleRequest_def)
qed

theorem media_junk_filtered_witness:
  "msg_url junk_message = Some ''https://cdn.example.com/app.js'' \<and>
   web_resource (effective_contentType junk_message) \<and>
   snd (handleRequest example_platform ''POST'' ''/media'' (JMessage junk_message) empty_monitor)
     = empty_monitor"
proof -
  have h1: "msg_url junk_message = Some ''https://cdn.example.com/app.js''"
    by (simp add: junk_message_def)
  have h2: "web_resource (effective_contentType junk_message)"
    by (simp add: junk_message_def empty_message_def effective_contentType_def or_else_def
          web_resource_def startsWith_def)
  from media_junk_filtered [OF h1, of example_platform empty_monitor] h1 h2
  show ?thesis by blast
qed

text \<open>
  C4, as stated, fails: a request whose body is not JSON is answered 200, not 400, and an
  \<^verbatim>\<open>OPTIONS\<close> request is answered 204 without a body, not 200 with the snapshot.
\<close>

theorem malformed_body_counterexample:
  "statusCode (fst (handleRequest example_platform ''POST'' ''/download'' Malformed empty_monitor)) = 200 \<and>
   statusCode (fst (handleRequest example_platform ''POST'' ''/media'' Malformed empty_monitor)) \<noteq> 400 \<and>
   fst (handleRequest example_platform ''OPTIONS'' ''/sync'' JOther empty_monitor)
     = \<lparr>statusCode = 204, res_body = NoBody\<rparr>"
  by (simp add: handleRequest_def sendSyncResponse_def Let_def)

lemma handlers_malformed:
  "onDownloadMessage plat Malformed st = st"
  "onMediaMessage plat Malformed st = st"
  "onVideoDownloadMessage Malformed st = st"
  "onTabUpdateMessage Malformed st = st"
  "onBatchMessage Malformed st = st"
  by (simp_all add: onDownloadMessage_def onMediaMessage_def onVideoDownloadMessage_def
        onTabUpdateMessage_def onBatchMessage_def)

lemma handlers_config:
  "config (onDownloadMessage plat b st) = config st"
  "config (onMediaMessage plat b st) = config st"
  "config (onVideoDownloadMessage b st) = config st"
  "config (onTabUpdateMessage b st) = config st"
  "config (onBatchMessage b st) = config st"
  "config (clearMediaList st) = config st"
  by (simp_all add: onDownloadMessage_def onMediaMessage_def onVideoDownloadMessage_def
        onTabUpdateMessage_def onBatchMessage_def clearMediaList_def Let_def
        split: json_body.splits option.splits)

text \<open>
  C4, amended. An \<^verbatim>\<open>OPTIONS\<close> request is answered 204 without a body and changes nothing.
  Every other request is answered 200 with the sync snapshot of the state the request leaves,
  also when its body is malformed, and never changes the configuration. The path \<^verbatim>\<open>/clear\<close>
  never reads its body: it empties the media list and emits \<^verbatim>\<open>media:cleared\<close> whatever the
  body is. On every other path a malformed body changes nothing and emits no event. The
  monitor's state and its events are all a request can reach, so no download is touched.
\<close>

theorem handleRequest_answers_sync:
  "(method = ''OPTIONS'' \<longrightarrow>
      handleRequest plat method path b st = (\<lparr>statusCode = 204, res_body = NoBody\<rparr>, st)) \<and>
   (method \<noteq> ''OPTIONS'' \<longrightarrow>
      statusCode (fst (handleRequest plat method path b st)) = 200 \<and>
      res_body (fst (handleRequest plat method path b st)) =
        SyncBody (snapshot_of (snd (handleRequest plat method path b st))) \<and>
      config (snd (handleRequest plat method path b st)) = config st \<and>
      (path = ''/clear'' \<longrightarrow>
         snd (handleRequest plat method path b st) =
           st\<lparr>mediaList := [], mon_emitted := mon_emitted st @ [MediaCleared]\<rparr>) \<and>
      (b = Malformed \<and> path \<noteq> ''/clear'' \<longrightarrow>
         snd (handleRequest plat method path b st) = st))"
  by (simp add: handleRequest_def sendSyncResponse_def Let_def handlers_malformed handlers_config
        clearMediaList_def)

theorem handleRequest_answers_sync_witness:
  "handleRequest example_platform ''OPTIONS'' ''/media'' Malformed watching_monitor
     = (\<lparr>statusCode = 204, res_body = NoBody\<rparr>, watching_monitor) \<and>
   statusCode (fst (handleRequest example_platform ''POST'' ''/link'' Malformed watching_monitor)) = 200 \<and>
   snd (handleRequest example_platform ''POST'' ''/link'' Malformed watching_monitor)
     = watching_monitor \<and>
   statusCode (fst (handleRequest example_platform ''POST'' ''/clear'' Malformed watching_monitor)) = 200 \<and>
   mediaList (snd (handleRequest example_platform ''POST'' ''/clear'' Malformed watching_monitor)) = [] \<and>
   mon_emitted (snd (handleRequest example_platform ''POST'' ''/clear'' Malformed watching_monitor))
     = [MediaCleared] \<and>
   mediaList watching_monitor \<noteq> []"
proof -
  have m: "''POST'' \<noteq> ''OPTIONS''" "''/link'' \<noteq> ''/clear''" by simp_all
  have c: "mon_emitted watching_monitor = []" "mediaList watching_monitor \<noteq> []"
    by (simp_all add: watching_monitor_def empty_monitor_def)
  from handleRequest_answers_sync [of "''OPTIONS''" example_platform "''/media''" Malformed watching_monitor]
    handleRequest_answers_sync [of "''POST''" example_platform "''/link''" Malformed watching_monitor]
    handleRequest_answers_sync [of "''POST''" example_platform "''/clear''" Malformed watching_monitor]
    m c
  show ?thesis by simp
qed

subsection \<open>Probe\<close>

















subsection \<open>Queue scheduler\<close>

lemma digit_char:
  assumes "d < 10"
  shows "(48 + d) mod 256 = (48 + d :: nat)"
    and "is_digit (char_of (48 + d))"
    and "\<not> js_whitespace (char_of (48 + d))"
    and "char_of (48 + d) \<noteq> CHR '':''"
    and "char_of (48 + d) \<noteq> CHR ''-''"
    and "char_of (48 + d) \<noteq> CHR ''+''"
proof -
  define c :: char where "c = char_of (48 + d)"
  show m: "(48 + d) mod 256 = (48 + d :: nat)" using assms by simp
  have 1: "(of_char c :: nat) = 48 + d"
    using assms by (simp add: c_def)
  have neq: "c \<noteq> c'" if "(of_char c' :: nat) < 48 \<or> 57 < (of_char c' :: nat)" for c' :: char
    using that 1 assms by auto
  have "is_digit c" using assms 1 by (simp add: is_digit_def)
  then show "is_digit (char_of (48 + d))" unfolding c_def .
  have "\<not> js_whitespace c" using 1 by (simp add: js_whitespace_def)
  then show "\<not> js_whitespace (char_of (48 + d))" unfolding c_def .
  have "c \<noteq> CHR '':''" by (rule neq) simp
  then show "char_of (48 + d) \<noteq> CHR '':''" unfolding c_def .
  have "c \<noteq> CHR ''-''" by (rule neq) simp
  then show "char_of (48 + d) \<noteq> CHR ''-''" unfolding c_def .
  have "c \<noteq> CHR ''+''" by (rule neq) simp
  then show "char_of (48 + d) \<noteq> CHR ''+''" unfolding c_def .
qed

lemma two_digits_Number:
  assumes "n < 100"
  shows "Number_dec (two_digits n) = Some (int n)"
proof -
  have a: "n div 10 < 10" "n mod 10 < 10" using assms by auto
  note da = digit_char [OF a(1)] and db = digit_char [OF a(2)]
  have t: "trim (two_digits n) = two_digits n"
    using da(3) db(3) by (simp add: trim_def two_digits_def)
  have v: "digits_val (two_digits n) = int n"
  proof -
    have "digits_val (two_digits n) = int (n div 10) * 10 + int (n mod 10)"
      by (simp add: digits_val_def two_digits_def da(1) db(1))
    also have "\<dots> = int n" by (simp add: zdiv_int zmod_int)
    finally show ?thesis .
  qed
  show ?thesis
    unfolding Number_dec_def Let_def t
    using da db v by (simp add: two_digits_def)
qed

lemma split_hhmm:
  assumes "h < 100" "m < 100"
  shows "split_on CHR '':'' (hhmm h m) = [two_digits h, two_digits m]"
proof -
  have a: "h div 10 < 10" "h mod 10 < 10" "m div 10 < 10" "m mod 10 < 10" using assms by auto
  show ?thesis
    using digit_char(4) [OF a(1)] digit_char(4) [OF a(2)] digit_char(4) [OF a(3)]
      digit_char(4) [OF a(4)]
    by (simp add: hhmm_def two_digits_def)
qed

lemma minutes_of_hhmm:
  assumes "h < 100" "m < 100"
  shows "minutes_of (hhmm h m) = Some (int h * 60 + int m)"
  using assms by (simp add: minutes_of_def split_hhmm two_digits_Number)

text \<open>
  C7. For a schedule whose start and end are written \<^verbatim>\<open>HH:mm\<close>, the schedule admits at a
  local time exactly when the weekday is one of its days and the minute of the day lies in
  \<open>[start, end]\<close> when \<open>start \<le> end\<close>, and is at least \<open>start\<close> or at most \<open>end\<close> otherwise.
\<close>

theorem schedule_window:
  assumes "startTime sch = hhmm sh sm" and "sh < 24" and "sm < 60"
      and "endTime sch = hhmm eh em" and "eh < 24" and "em < 60"
  shows "isWithinSchedule sch now \<longleftrightarrow>
           getDay now \<in> set (days sch) \<and>
           (let start = int sh * 60 + int sm;
                end' = int eh * 60 + int em;
                cur = getHours now * 60 + getMinutes now
            in if start \<le> end' then start \<le> cur \<and> cur \<le> end'
               else start \<le> cur \<or> cur \<le> end')"
proof -
  have s: "minutes_of (startTime sch) = Some (int sh * 60 + int sm)"
    using assms(1-3) by (simp add: minutes_of_hhmm)
  have e: "minutes_of (endTime sch) = Some (int eh * 60 + int em)"
    using assms(4-6) by (simp add: minutes_of_hhmm)
  show ?thesis
    by (simp add: isWithinSchedule_def s e js_le_def Let_def)
qed

lemma friday_night_samples:
  "isWithinSchedule friday_night \<lparr>getDay = 5, getHours = 23, getMinutes = 30\<rparr>"
  "isWithinSchedule friday_night \<lparr>getDay = 5, getHours = 1, getMinutes = 59\<rparr>"
  "\<not> isWithinSchedule friday_night \<lparr>getDay = 5, getHours = 12, getMinutes = 0\<rparr>"
  "\<not> isWithinSchedule friday_night \<lparr>getDay = 6, getHours = 1, getMinutes = 0\<rparr>"
  by code_simp+

theorem schedule_window_witness:
  "startTime friday_night = hhmm 22 0 \<and> (22::nat) < 24 \<and> (0::nat) < 60 \<and>
   endTime friday_night = hhmm 2 0 \<and> (2::nat) < 24 \<and>
   isWithinSchedule friday_night friday_2330"
proof -
  have h1: "startTime friday_night = hhmm 22 0" by code_simp
  have h2: "endTime friday_night = hhmm 2 0" by code_simp
  have d: "getDay friday_2330 \<in> set (days friday_night)" "getHours friday_2330 = 23"
    "getMinutes friday_2330 = 30"
    by (simp_all add: friday_2330_def friday_night_def)
  from schedule_window [OF h1 _ _ h2, of friday_2330] d h1 h2 show ?thesis
    by simp
qed

text \<open>
  The schedule guards the queue: an enabled queue with a free slot and an enabled
  schedule hands out its next downloads exactly while the schedule admits.
\<close>

lemma getNextDownloadIds_scheduled:
  assumes "queues qid = Some queue" and "q_enabled queue"
      and "schedule queue = Some sch" and "sch_enabled sch"
      and "active < maxConcurrent queue"
  shows "getNextDownloadIds queues now qid active =
           (if isWithinSchedule sch now
            then take (nat (maxConcurrent queue - active)) (downloadIds queue) else [])"
  using assms by (simp add: getNextDownloadIds_def Let_def max_def)

subsection \<open>Header hygiene\<close>

lemma spread_snoc: "spread obj (src @ [(k, v)]) = AList.update k v (spread obj src)"
  by (simp add: spread_def)

lemma map_of_spread:
  "map_of (spread obj src) k =
     (case map_of (rev src) k of Some v \<Rightarrow> Some v | None \<Rightarrow> map_of obj k)"
proof (induction src rule: rev_induct)
  case Nil
  show ?case by (simp add: spread_def)
next
  case (snoc x xs)
  obtain a b where x: "x = (a, b)" by (cases x)
  show ?case
    using snoc by (simp add: x spread_snoc update_conv')
qed





lemma blocked_Range: "toLowerCase ''Range'' \<in> set blocked_headers"
  by code_simp


text \<open>
  The media items of the monitor carry cleaned headers: every request keeps it so.
\<close>

lemma set_update_subset: "set (AList.update k v xs) \<subseteq> insert (k, v) (set xs)"
  by (induction xs) auto

lemma retitle_headers: "mi_headers (retitle t m) = mi_headers m"
  by (simp add: retitle_def Let_def)

lemma handleRequest_headers_cleaned:
  assumes "\<And>k m. (k, m) \<in> set (mediaList st) \<Longrightarrow> \<exists>h. mi_headers m = cleanHeaders h"
      and "(k, m) \<in> set (mediaList (snd (handleRequest plat method path b st)))"
  shows "\<exists>h. mi_headers m = cleanHeaders h"
proof -
  have tab: "\<exists>h. mi_headers m = cleanHeaders h"
    if "(k, m) \<in> set (mediaList (onTabUpdateMessage b st))"
    using that assms(1)
    by (auto simp: onTabUpdateMessage_def Let_def retitle_headers
          split: json_body.splits if_splits)
  have media: "\<exists>h. mi_headers m = cleanHeaders h"
    if "(k, m) \<in> set (mediaList (onMediaMessage plat b st))"
  proof (cases b)
    case (JMessage msg)
    show ?thesis
    proof (cases "onMediaMessage plat b st = st")
      case True
      with that assms(1) show ?thesis by simp
    next
      case False
      then obtain ident media where
        st': "mediaList (onMediaMessage plat b st) = AList.update ident media (mediaList st)"
        and h: "mi_headers media = cleanHeaders (requestHeaders msg)"
        unfolding JMessage onMediaMessage_def Let_def
        by (auto split: if_splits)
      from that st' set_update_subset have "(k, m) = (ident, media) \<or> (k, m) \<in> set (mediaList st)"
        by fastforce
      with h assms(1) show ?thesis by auto
    qed
  qed (use that assms(1) in \<open>auto simp: onMediaMessage_def\<close>)
  have other: "mediaList (onDownloadMessage plat b st) = mediaList st"
    "mediaList (onVideoDownloadMessage b st) = mediaList st"
    "mediaList (onBatchMessage b st) = mediaList st"
    "mediaList (clearMediaList st) = []"
    by (simp_all add: onDownloadMessage_def onVideoDownloadMessage_def onBatchMessage_def
          clearMediaList_def Let_def split: json_body.splits option.splits)
  from assms(2) show ?thesis
    using assms(1) tab media other
    by (auto simp: handleRequest_def Let_def split: if_splits)
qed



subsection \<open>YouTube range normalisation\<close>

lemma getYouTubeBaseUrl_parsed:
  assumes "new_URL plat u = Some p"
  shows "getYouTubeBaseUrl plat u = url_toString (canonical_url p)"
proof -
  have f: "(\<lambda>x. (case x of (n, v) \<Rightarrow> n \<noteq> ''range'') \<and> (case x of (n, v) \<Rightarrow> n \<noteq> ''rn'') \<and>
                (case x of (n, v) \<Rightarrow> n \<noteq> ''rbuf'')) =
           (\<lambda>(n :: string, v :: string). \<not> range_param n)"
    by (auto simp: range_param_def fun_eq_iff)
  show ?thesis
    using assms
    by (simp add: getYouTubeBaseUrl_def searchParams_delete_def Let_def canonical_url_def f
          url_toString_def)
qed

lemma canonical_url_same:
  assumes "u_base p2 = u_base p1" "u_hash p2 = u_hash p1"
      and "filter (\<lambda>(n, v). \<not> range_param n) (searchParams p2) =
           filter (\<lambda>(n, v). \<not> range_param n) (searchParams p1)"
  shows "url_toString (canonical_url p2) = url_toString (canonical_url p1)"
  using assms by (simp add: canonical_url_def Let_def url_toString_def)

lemma canonical_url_toString:
  "url_toString (canonical_url p) =
     u_base p @
     (let q = urlencoded_serialize (filter (\<lambda>(n, v). \<not> range_param n) (searchParams p))
      in if q = [] then [] else CHR ''?'' # q) @
     (case u_hash p of None \<Rightarrow> [] | Some f \<Rightarrow> CHR ''#'' # f)"
  by (simp add: canonical_url_def Let_def url_toString_def)

lemma str_includes_nonempty: "str_includes u x \<Longrightarrow> x \<noteq> [] \<Longrightarrow> u \<noteq> []"
  by (cases u) auto

lemma onMediaMessage_known:
  assumes "msg_url msg = Some u" and "isYouTube u (msg_tabUrl msg)"
      and "list_ex (\<lambda>(k, e). existingBase plat e = getYouTubeBaseUrl plat u) (mediaList st)"
  shows "onMediaMessage plat (JMessage msg) st = st"
  using assms by (simp add: onMediaMessage_def Let_def)

lemma onMediaMessage_rejected:
  assumes "web_resource (toLowerCase (effective_contentType msg))"
  shows "onMediaMessage plat (JMessage msg) st = st"
  using assms by (simp add: onMediaMessage_def Let_def)

lemma onMediaMessage_fresh:
  assumes "msg_url msg = Some u" and "u \<noteq> []" and "isYouTube u (msg_tabUrl msg)"
      and "\<not> web_resource (toLowerCase (effective_contentType msg))"
      and "mediaList st = []"
  shows "\<exists>media. mi_url media = getYouTubeBaseUrl plat u \<and>
           mediaList (onMediaMessage plat (JMessage msg) st) = [(generateId plat, media)]"
  using assms by (simp add: onMediaMessage_def Let_def truthy_def)

lemma handleRequest_media:
  "snd (handleRequest plat ''POST'' ''/media'' b st) = onMediaMessage plat b st"
  by (simp add: handleRequest_def Let_def)


text \<open>
  C5, as stated, fails twice. Two messages on a \<^verbatim>\<open>googlevideo.com\<close> host whose URLs differ
  only in \<^verbatim>\<open>range\<close>, both with the content type \<^verbatim>\<open>application/json\<close>, leave the media list
  empty. Two messages whose URLs differ only in \<^verbatim>\<open>range\<close> and whose host is
  \<^verbatim>\<open>WWW.YOUTUBE.COM\<close>, the host \<^verbatim>\<open>www.youtube.com\<close>, leave two media items, each with the URL
  as it was sent: the monitor looks for \<^verbatim>\<open>youtube.com\<close> in the URL as written.
\<close>

theorem youtube_json_counterexample:
  "new_URL example_platform yt_url_1 = Some yt_parsed_1 \<and>
   new_URL example_platform yt_url_2 = Some yt_parsed_2 \<and>
   str_includes (u_hostname yt_parsed_1) ''googlevideo.com'' \<and>
   mediaList
     (snd (handleRequest later_platform ''POST'' ''/media''
             (JMessage (yt_message yt_url_2 ''application/json''))
        (snd (handleRequest example_platform ''POST'' ''/media''
                (JMessage (yt_message yt_url_1 ''application/json'')) empty_monitor)))) = [] \<and>
   new_URL example_platform upper_url_1 = Some upper_parsed_1 \<and>
   new_URL example_platform upper_url_2 = Some upper_parsed_2 \<and>
   str_includes (u_hostname upper_parsed_1) ''youtube.com'' \<and>
   map (mi_url \<circ> snd) (mediaList
     (snd (handleRequest later_platform ''POST'' ''/media''
             (JMessage (yt_message upper_url_2 ''video/mp4''))
        (snd (handleRequest example_platform ''POST'' ''/media''
                (JMessage (yt_message upper_url_1 ''video/mp4'')) empty_monitor)))))
     = [upper_url_1, upper_url_2]"
  by code_simp

text \<open>
  C5, amended. Take two \<^verbatim>\<open>POST /media\<close> messages whose URLs, as written, contain
  \<^verbatim>\<open>googlevideo.com\<close> or \<^verbatim>\<open>youtube.com\<close>, and which the platform's constructor accepts and
  parses to URLs with a host, with the same base and fragment and with the same query
  parameters once \<^verbatim>\<open>range\<close>, \<^verbatim>\<open>rn\<close> and \<^verbatim>\<open>rbuf\<close> are left out. If the content type of at least one of them passes the
  web-resource filter, processing both from an empty media list leaves exactly one media
  item, and its stored URL is the canonical URL: the same base and fragment, and the query
  written from the parameters other than those three. The constructor is taken to parse the
  canonical URL back to a URL with that same canonical form.
\<close>

theorem youtube_range_dedup:
  assumes "msg_url m1 = Some u1" and "msg_url m2 = Some u2"
      and "str_includes u1 ''googlevideo.com'' \<or> str_includes u1 ''youtube.com''"
      and "str_includes u2 ''googlevideo.com'' \<or> str_includes u2 ''youtube.com''"
      and "new_URL plat1 u1 = Some p1" and "new_URL plat2 u2 = Some p2"
      and "u_hostname p1 \<noteq> []" and "u_hostname p2 \<noteq> []"
      and "u_base p2 = u_base p1" and "u_hash p2 = u_hash p1"
      and "filter (\<lambda>(n, v). \<not> range_param n) (searchParams p2) =
           filter (\<lambda>(n, v). \<not> range_param n) (searchParams p1)"
      and "\<not> web_resource (toLowerCase (effective_contentType m1)) \<or>
           \<not> web_resource (toLowerCase (effective_contentType m2))"
      and "mediaList st = []"
      and "\<exists>c. new_URL plat2 (url_toString (canonical_url p1)) = Some c \<and>
               url_toString (canonical_url c) = url_toString (canonical_url p1)"
  shows "\<exists>k media.
           mediaList
             (snd (handleRequest plat2 ''POST'' ''/media'' (JMessage m2)
                (snd (handleRequest plat1 ''POST'' ''/media'' (JMessage m1) st))))
             = [(k, media)] \<and>
           mi_url media = url_toString (canonical_url p1) \<and>
           url_toString (canonical_url p1) =
             u_base p1 @
             (let q = urlencoded_serialize
                        (filter (\<lambda>(n, v). \<not> range_param n) (searchParams p1))
              in if q = [] then [] else CHR ''?'' # q) @
             (case u_hash p1 of None \<Rightarrow> [] | Some f \<Rightarrow> CHR ''#'' # f) \<and>
           (\<forall>n v. (n, v) \<in> set (filter (\<lambda>(n, v). \<not> range_param n) (searchParams p1)) \<longrightarrow>
                  n \<noteq> ''range'' \<and> n \<noteq> ''rn'' \<and> n \<noteq> ''rbuf'')"
proof -
  define d where "d = url_toString (canonical_url p1)"
  have b1: "getYouTubeBaseUrl plat1 u1 = d"
    using assms(5) by (simp add: getYouTubeBaseUrl_parsed d_def)
  have same: "url_toString (canonical_url p2) = url_toString (canonical_url p1)"
    using assms(9-11) by (rule canonical_url_same)
  have b2: "getYouTubeBaseUrl plat2 u2 = d"
    using assms(6) by (simp add: getYouTubeBaseUrl_parsed d_def same)
  from assms(14) obtain c where c: "new_URL plat2 d = Some c"
    "url_toString (canonical_url c) = d"
    unfolding d_def by blast
  have idem: "getYouTubeBaseUrl plat2 d = d"
    using getYouTubeBaseUrl_parsed [OF c(1)] c(2) by simp
  have lits: "''googlevideo.com'' \<noteq> []" "''youtube.com'' \<noteq> []" by simp_all
  have ne: "u1 \<noteq> []" "u2 \<noteq> []"
    using assms(3,4) str_includes_nonempty lits by blast+
  have yt: "isYouTube u1 t1" "isYouTube u2 t2" for t1 t2
    using assms(3,4) by (simp_all add: isYouTube_def)
  have known: "existingBase plat2 media = d" if "mi_url media = d" for media
    using that idem by (simp add: existingBase_def)
  have noparam: "\<forall>n v. (n, v) \<in> set (filter (\<lambda>(n, v). \<not> range_param n) (searchParams p1)) \<longrightarrow>
      n \<noteq> ''range'' \<and> n \<noteq> ''rn'' \<and> n \<noteq> ''rbuf''"
    by (auto simp: range_param_def)
  have "\<exists>k media.
      mediaList (onMediaMessage plat2 (JMessage m2) (onMediaMessage plat1 (JMessage m1) st))
        = [(k, media)] \<and> mi_url media = d"
  proof (cases "web_resource (toLowerCase (effective_contentType m1))")
    case True
    then have st1: "onMediaMessage plat1 (JMessage m1) st = st"
      by (rule onMediaMessage_rejected)
    from True assms(12) have "\<not> web_resource (toLowerCase (effective_contentType m2))" by simp
    from onMediaMessage_fresh [OF assms(2) ne(2) yt(2) this assms(13), of plat2]
    show ?thesis by (auto simp: st1 b2)
  next
    case False
    from onMediaMessage_fresh [OF assms(1) ne(1) yt(1) False assms(13), of plat1]
    obtain media where m: "mi_url media = d"
      "mediaList (onMediaMessage plat1 (JMessage m1) st) = [(generateId plat1, media)]"
      by (auto simp: b1)
    have "list_ex (\<lambda>(k, e). existingBase plat2 e = getYouTubeBaseUrl plat2 u2)
        (mediaList (onMediaMessage plat1 (JMessage m1) st))"
      using m known by (simp add: b2)
    from onMediaMessage_known [OF assms(2) yt(2) this] m
    show ?thesis by auto
  qed
  then obtain k media where km:
    "mediaList (onMediaMessage plat2 (JMessage m2) (onMediaMessage plat1 (JMessage m1) st))
        = [(k, media)]" "mi_url media = d"
    by blast
  show ?thesis
    apply (rule exI [of _ k])
    apply (rule exI [of _ media])
    apply (intro conjI)
       apply (simp add: handleRequest_media km(1))
      apply (simp add: km(2) d_def)
     apply (rule canonical_url_toString)
    apply (rule noparam)
    done
qed

theorem youtube_range_dedup_witness:
  "new_URL example_platform yt_url_1 = Some yt_parsed_1 \<and>
   new_URL later_platform yt_url_2 = Some yt_parsed_2 \<and>
   str_includes yt_url_1 ''googlevideo.com'' \<and>
   str_includes yt_url_2 ''googlevideo.com'' \<and>
   \<not> web_resource (toLowerCase (effective_contentType (yt_message yt_url_1 ''video/mp4''))) \<and>
   url_toString (canonical_url yt_parsed_1) = yt_url_base \<and>
   (\<exists>k media.
      mediaList
        (snd (handleRequest later_platform ''POST'' ''/media''
                (JMessage (yt_message yt_url_2 ''video/mp4''))
           (snd (handleRequest example_platform ''POST'' ''/media''
                   (JMessage (yt_message yt_url_1 ''video/mp4'')) empty_monitor))))
        = [(k, media)] \<and>
      mi_url media = yt_url_base)"
proof -
  have h1: "msg_url (yt_message yt_url_1 ''video/mp4'') = Some yt_url_1"
    and h2: "msg_url (yt_message yt_url_2 ''video/mp4'') = Some yt_url_2"
    by (simp_all add: yt_message_def)
  have g1: "str_includes yt_url_1 ''googlevideo.com''" by code_simp
  have g2: "str_includes yt_url_2 ''googlevideo.com''" by code_simp
  from g1 have h3: "str_includes yt_url_1 ''googlevideo.com'' \<or> str_includes yt_url_1 ''youtube.com''" ..
  from g2 have h4: "str_includes yt_url_2 ''googlevideo.com'' \<or> str_includes yt_url_2 ''youtube.com''" ..
  have h5: "new_URL example_platform yt_url_1 = Some yt_parsed_1" by code_simp
  have h6: "new_URL later_platform yt_url_2 = Some yt_parsed_2" by code_simp
  have h7: "u_base yt_parsed_2 = u_base yt_parsed_1"
    and h8: "u_hash yt_parsed_2 = u_hash yt_parsed_1"
    and n1: "u_hostname yt_parsed_1 \<noteq> []" and n2: "u_hostname yt_parsed_2 \<noteq> []"
    by (simp_all add: yt_parsed_1_def yt_parsed_2_def)
  have h9: "filter (\<lambda>(n, v). \<not> range_param n) (searchParams yt_parsed_2) =
      filter (\<lambda>(n, v). \<not> range_param n) (searchParams yt_parsed_1)" by code_simp
  have p: "\<not> web_resource (toLowerCase (effective_contentType (yt_message yt_url_1 ''video/mp4'')))"
    by code_simp
  then have h10: "\<not> web_resource (toLowerCase (effective_contentType (yt_message yt_url_1 ''video/mp4''))) \<or>
      \<not> web_resource (toLowerCase (effective_contentType (yt_message yt_url_2 ''video/mp4'')))"
    by simp
  have h11: "mediaList empty_monitor = []" by (simp add: empty_monitor_def)
  have e: "url_toString (canonical_url yt_parsed_1) = yt_url_base" by code_simp
  have r: "new_URL later_platform yt_url_base = Some yt_parsed_base" by code_simp
  have s: "url_toString (canonical_url yt_parsed_base) = yt_url_base" by code_simp
  have h12: "\<exists>c. new_URL later_platform (url_toString (canonical_url yt_parsed_1)) = Some c \<and>
      url_toString (canonical_url c) = url_toString (canonical_url yt_parsed_1)"
    unfolding e using r s by blast
  from youtube_range_dedup [OF h1 h2 h3 h4 h5 h6 n1 n2 h7 h8 h9 h10 h11 h12] h5 h6 g1 g2 p e
  show ?thesis by metis
qed

end
